theory Spec2Isabelle
  imports Complex_Main "HOL-Library.Multiset"
begin

section \<open>Tables\<close>

text \<open>
  Both scripts are thin wrappers around a dataframe library. A table (a DataFrame) is
  an index of row labels and an ordered list of named, typed columns. A cell is a
  number, a string, a boolean, a timestamp (nanoseconds since the epoch), a calendar
  date (days since the epoch) or missing (\<open>NaN\<close>, which also stands for None and NaT).
  Numbers are exact rationals: the floating-point results of the library agree with
  them wherever the values involved are dyadic rationals of small size, which is the
  case for every concrete table evaluated below.
\<close>

datatype error =
    KeyError string
  | IndexError
  | ZeroDivisionError
  | UnboundLocalError string
  | TypeError
  | AttributeError
  | FileNotFoundError
  | LibraryError string

text \<open>
  The type of a column.  \<open>Int64\<close> stands for the integer types of any width, signed
  or not, \<open>Float64\<close> for the floating-point types, \<open>Complex128\<close> for the complex ones,
  \<open>Boolean\<close> for both kinds of Booleans, \<open>Datetime64\<close> for timestamps with or without
  a time zone.  \<open>Extension numeric\<close> is any other extension type; \<open>numeric\<close> tells
  whether the type declares itself numeric, as the nullable integers and floats do.
\<close>

datatype dtype =
    Int64
  | Float64
  | Complex128
  | Timedelta64
  | Boolean
  | Object
  | Datetime64
  | Category
  | Extension bool

datatype cell = NaN | Num rat | Str string | Flag bool | Stamp int | Date int

record column =
  name :: string
  dtype :: dtype
  vals :: "cell list"

record table =
  index :: "cell list"
  columns :: "column list"

text \<open>\<open>len(df)\<close>: the number of rows.\<close>

definition len :: "table \<Rightarrow> nat" where
  "len t = length (index t)"

text \<open>The index \<open>0, 1, ..., n - 1\<close> that a table gets when none is given.\<close>

definition RangeIndex :: "nat \<Rightarrow> cell list" where
  "RangeIndex n = map (\<lambda>i. Num (of_nat i)) [0..<n]"

text \<open>
  A table is rectangular when every column is as long as the index, and its column
  names are distinct (the CSV reader renames duplicates).
\<close>

definition wf_table :: "table \<Rightarrow> bool" where
  "wf_table t \<longleftrightarrow>
     list_all (\<lambda>c. length (vals c) = len t) (columns t) \<and> distinct (map name (columns t))"

text \<open>\<open>df.columns\<close> and \<open>column in df.columns\<close>.\<close>

definition column_names :: "table \<Rightarrow> string list" where
  "column_names t = map name (columns t)"

text \<open>\<open>df[column]\<close>: the column of that name, KeyError when there is none.\<close>

definition getitem :: "table \<Rightarrow> string \<Rightarrow> error + column" where
  "getitem t k =
     (case find (\<lambda>c. name c = k) (columns t) of
        None \<Rightarrow> Inl (KeyError k)
      | Some c \<Rightarrow> Inr c)"

text \<open>\<open>df[[k1, k2, ...]]\<close>: the listed columns in the listed order.\<close>

fun getitem_list :: "table \<Rightarrow> string list \<Rightarrow> error + column list" where
  "getitem_list t [] = Inr []"
| "getitem_list t (k # ks) =
     (case getitem t k of
        Inl e \<Rightarrow> Inl e
      | Inr c \<Rightarrow> (case getitem_list t ks of Inl e \<Rightarrow> Inl e | Inr cs \<Rightarrow> Inr (c # cs)))"

text \<open>
  \<open>df[column] = values\<close> for an existing column: the column keeps its place and takes
  the new values and their type.
\<close>

definition setitem :: "table \<Rightarrow> string \<Rightarrow> dtype \<Rightarrow> cell list \<Rightarrow> table" where
  "setitem t k d vs =
     t\<lparr>columns := map (\<lambda>c. if name c = k then c\<lparr>dtype := d, vals := vs\<rparr> else c) (columns t)\<rparr>"

text \<open>
  Boolean indexing \<open>df[mask]\<close>: the positions where the mask is true
  (\<open>mask.nonzero()\<close>), then the rows at these positions, labels included.
\<close>

definition nonzero :: "bool list \<Rightarrow> nat list" where
  "nonzero bs = filter (\<lambda>i. bs ! i) [0..<length bs]"

definition take_pos :: "nat list \<Rightarrow> 'a list \<Rightarrow> 'a list" where
  "take_pos js xs = map (\<lambda>j. xs ! j) js"

definition take_rows :: "nat list \<Rightarrow> table \<Rightarrow> table" where
  "take_rows js t =
     \<lparr>index = take_pos js (index t),
      columns = map (\<lambda>c. c\<lparr>vals := take_pos js (vals c)\<rparr>) (columns t)\<rparr>"

text \<open>A row: its label and its entries, each under its column name.\<close>

type_synonym row = "cell \<times> (string \<times> cell) list"

definition row_at :: "table \<Rightarrow> nat \<Rightarrow> row" where
  "row_at t i = (index t ! i, map (\<lambda>c. (name c, vals c ! i)) (columns t))"

definition rows_of :: "table \<Rightarrow> row list" where
  "rows_of t = map (row_at t) [0..<len t]"

definition row_has_missing :: "row \<Rightarrow> bool" where
  "row_has_missing r = list_ex (\<lambda>kv. snd kv = NaN) (snd r)"

text \<open>\<open>df.dropna()\<close>: the rows without any missing entry.\<close>

definition dropna :: "table \<Rightarrow> table" where
  "dropna t = take_rows (nonzero (map (\<lambda>i. \<not> row_has_missing (row_at t i)) [0..<len t])) t"

text \<open>\<open>df.fillna(0)\<close>: every missing entry becomes the number 0.\<close>

definition fillna :: "cell \<Rightarrow> table \<Rightarrow> table" where
  "fillna v t =
     t\<lparr>columns := map (\<lambda>c. c\<lparr>vals := map (\<lambda>x. if x = NaN then v else x) (vals c)\<rparr>) (columns t)\<rparr>"

text \<open>\<open>df.isnull().sum()\<close>: the number of missing entries of each column.\<close>

definition isnull_sum :: "table \<Rightarrow> (string \<times> nat) list" where
  "isnull_sum t = map (\<lambda>c. (name c, length (filter (\<lambda>x. x = NaN) (vals c)))) (columns t)"

definition total_missing :: "table \<Rightarrow> nat" where
  "total_missing t = sum_list (map snd (isnull_sum t))"

text \<open>
  \<open>df.head(n)\<close>: the first \<open>n\<close> rows; for a negative \<open>n\<close>, all rows but the last
  \<open>-n\<close>.
\<close>

definition head :: "int \<Rightarrow> table \<Rightarrow> table" where
  "head n t =
     (let k = (if 0 \<le> n then nat n else len t - nat (- n))
      in \<lparr>index = take k (index t),
          columns = map (\<lambda>c. c\<lparr>vals := take k (vals c)\<rparr>) (columns t)\<rparr>)"

text \<open>
  The elementwise \<open>==\<close> of a column with a scalar: a missing entry equals nothing
  (not even a missing value), a boolean equals the numbers 0 and 1, and values of
  different kinds are unequal.
\<close>

fun py_eq :: "cell \<Rightarrow> cell \<Rightarrow> bool" where
  "py_eq NaN _ = False"
| "py_eq _ NaN = False"
| "py_eq (Num a) (Num b) = (a = b)"
| "py_eq (Num a) (Flag b) = (a = (if b then 1 else 0))"
| "py_eq (Flag a) (Num b) = ((if a then 1 else 0) = b)"
| "py_eq (Flag a) (Flag b) = (a = b)"
| "py_eq (Str a) (Str b) = (a = b)"
| "py_eq (Stamp a) (Stamp b) = (a = b)"
| "py_eq (Date a) (Date b) = (a = b)"
| "py_eq _ _ = False"

section \<open>Objects, output and external routines\<close>

text \<open>
  Tables are objects: a variable holds a reference to a table, and two variables may
  hold the same one. The heap is the list of all tables made so far, a reference is
  a position in it. The console is the list of the messages printed so far.
\<close>

datatype message =
    Loaded string nat nat
  | FileNotFound string string
  | LoadError error
  | NoDataLoadFirst
  | NoData
  | Dropped nat
  | Filled
  | InvalidStrategy
  | ColumnNotFound string
  | Filtered nat string cell
  | GeneratingSummary
  | AnalyzingDistributions
  | PlotsSaved
  | PerformingCorrelation string
  | NotNumerical string
  | OutliersDetected string
  | OutlierMethod string
  | OutlierCount nat
  | OutlierPercentage rat
  | AnalyzingCategorical
  | CategoricalColumn string
  | CategoricalUnique nat
  | CategoricalMostCommon cell nat
  | PerformingTimeSeries

record world =
  heap :: "table list"
  out :: "message list"

definition say :: "message \<Rightarrow> world \<Rightarrow> world" where
  "say m w = w\<lparr>out := out w @ [m]\<rparr>"

definition alloc :: "table \<Rightarrow> world \<Rightarrow> nat \<times> world" where
  "alloc t w = (length (heap w), w\<lparr>heap := heap w @ [t]\<rparr>)"

definition store :: "nat \<Rightarrow> table \<Rightarrow> world \<Rightarrow> world" where
  "store p t w = w\<lparr>heap := (heap w)[p := t]\<rparr>"

text \<open>
  The routines of the dataframe, statistics and plotting libraries whose results no
  operation of the two scripts inspects are parameters of the model. Each is a
  function of its arguments: it returns a new value or raises, and has no access to
  the heap. The file system read by \<open>pd.read_csv\<close> is part of \<open>pd_read_csv\<close>.
\<close>

datatype figure =
    Distributions "(string \<times> cell list) list"
  | Heatmap table string
  | Trends table string

record lib =
  pd_read_csv :: "string \<Rightarrow> error + table"
  pd_describe :: "column list \<Rightarrow> error + table"
  pd_var :: "column list \<Rightarrow> error + (string \<times> cell) list"
  pd_skew :: "column list \<Rightarrow> error + (string \<times> cell) list"
  pd_kurtosis :: "column list \<Rightarrow> error + (string \<times> cell) list"
  pd_round :: "nat \<Rightarrow> table \<Rightarrow> table"
  pd_corr :: "string \<Rightarrow> column list \<Rightarrow> error + table"
  pd_to_datetime :: "column \<Rightarrow> error + cell list"
  stats_zscore :: "rat list \<Rightarrow> rat option list"
  plt_draw :: "figure \<Rightarrow> error option"
  plt_savefig :: "figure \<Rightarrow> error option"
  plt_show :: "figure \<Rightarrow> error option"

section \<open>The data loader\<close>

record loader =
  data_path :: string
  loader_data :: "nat option"

definition NetflixDataLoader :: "string \<Rightarrow> loader" where
  "NetflixDataLoader path = \<lparr>data_path = path, loader_data = None\<rparr>"

text \<open>\<open>os.path.join\<close> of two components, on a POSIX system.\<close>

definition os_path_join :: "string \<Rightarrow> string \<Rightarrow> string" where
  "os_path_join a b =
     (if take 1 b = ''/'' then b
      else if a = [] \<or> take 1 (rev a) = ''/'' then a @ b
      else a @ ''/'' @ b)"

definition load_csv :: "lib \<Rightarrow> loader \<Rightarrow> string \<Rightarrow> world \<Rightarrow> nat option \<times> loader \<times> world" where
  "load_csv L self filename w =
     (let filepath = os_path_join (data_path self) filename
      in case pd_read_csv L filepath of
           Inr t \<Rightarrow>
             (let (p, w1) = alloc t w;
                  self1 = self\<lparr>loader_data := Some p\<rparr>
              in (Some p, self1, say (Loaded filename (len t) (length (columns t))) w1))
         | Inl e \<Rightarrow>
             (if e = FileNotFoundError
              then (None, self, say (FileNotFound filename filepath) w)
              else (None, self, say (LoadError e) w)))"

record basic_info =
  info_rows :: nat
  info_columns :: nat
  info_column_names :: "string list"
  info_missing_values :: "(string \<times> nat) list"
  info_dtypes :: "(string \<times> dtype) list"

definition describe_table :: "table \<Rightarrow> basic_info" where
  "describe_table t =
     \<lparr>info_rows = len t,
      info_columns = length (columns t),
      info_column_names = column_names t,
      info_missing_values = isnull_sum t,
      info_dtypes = map (\<lambda>c. (name c, dtype c)) (columns t)\<rparr>"

text \<open>The empty dict of \<open>get_basic_info\<close> is \<open>None\<close>.\<close>

definition get_basic_info :: "loader \<Rightarrow> world \<Rightarrow> basic_info option \<times> loader \<times> world" where
  "get_basic_info self w =
     (case loader_data self of
        None \<Rightarrow> (None, self, say NoDataLoadFirst w)
      | Some p \<Rightarrow> (Some (describe_table (heap w ! p)), self, w))"

definition show_sample :: "loader \<Rightarrow> int \<Rightarrow> world \<Rightarrow> nat option \<times> loader \<times> world" where
  "show_sample self n w =
     (case loader_data self of
        None \<Rightarrow> (None, self, say NoData w)
      | Some p \<Rightarrow> (let (q, w1) = alloc (head n (heap w ! p)) w in (Some q, self, w1)))"

definition handle_missing_values ::
  "loader \<Rightarrow> string \<Rightarrow> world \<Rightarrow> nat option \<times> loader \<times> world" where
  "handle_missing_values self strategy w =
     (case loader_data self of
        None \<Rightarrow> (None, self, say NoData w)
      | Some p \<Rightarrow>
          (if strategy = ''drop'' then
             (let (cleaned_data, w1) = alloc (dropna (heap w ! p)) w;
                  w2 = say (Dropped (len (heap w1 ! p) - len (heap w1 ! cleaned_data))) w1
              in (Some cleaned_data, self, w2))
           else if strategy = ''fill'' then
             (let (cleaned_data, w1) = alloc (fillna (Num 0) (heap w ! p)) w;
                  w2 = say Filled w1
              in (Some cleaned_data, self, w2))
           else (Some p, self, say InvalidStrategy w)))"

definition filter_by_column ::
  "loader \<Rightarrow> string \<Rightarrow> cell \<Rightarrow> world \<Rightarrow> nat option \<times> loader \<times> world" where
  "filter_by_column self column v w =
     (case loader_data self of
        None \<Rightarrow> (None, self, say NoData w)
      | Some p \<Rightarrow>
          (case getitem (heap w ! p) column of
             Inl e \<Rightarrow> (None, self, say (ColumnNotFound column) w)
           | Inr c \<Rightarrow>
               (let bs = map (\<lambda>x. py_eq x v) (vals c);
                    (filtered_data, w1) = alloc (take_rows (nonzero bs) (heap w ! p)) w;
                    w2 = say (Filtered (len (heap w1 ! filtered_data)) column v) w1
                in (Some filtered_data, self, w2))))"

text \<open>A caller's sequence of calls on a loader that holds a table.\<close>

datatype loader_call =
    Get_basic_info
  | Show_sample int
  | Handle_missing_values string
  | Filter_by_column string cell

fun loader_step :: "loader_call \<Rightarrow> loader \<times> world \<Rightarrow> loader \<times> world" where
  "loader_step Get_basic_info (self, w) = snd (get_basic_info self w)"
| "loader_step (Show_sample n) (self, w) = snd (show_sample self n w)"
| "loader_step (Handle_missing_values s) (self, w) = snd (handle_missing_values self s w)"
| "loader_step (Filter_by_column c v) (self, w) = snd (filter_by_column self c v w)"

definition run_loader :: "loader_call list \<Rightarrow> loader \<times> world \<Rightarrow> loader \<times> world" where
  "run_loader calls s = foldl (\<lambda>s c. loader_step c s) s calls"

section \<open>The exploratory analysis\<close>

record analyzer =
  eda_data :: nat
  numerical_cols :: "string list"
  categorical_cols :: "string list"

text \<open>
  \<open>df.select_dtypes(include=...)\<close>: the columns whose type is selected. The numbers
  (\<open>np.number\<close>) are the integer, floating-point and complex types, the durations
  (\<open>timedelta64\<close> is an integer type of the library) and the extension types that declare
  themselves numeric; Booleans, timestamps and categories are not numbers, and they are
  not of type \<open>object\<close> either.
\<close>

fun np_number :: "dtype \<Rightarrow> bool" where
  "np_number Int64 = True"
| "np_number Float64 = True"
| "np_number Complex128 = True"
| "np_number Timedelta64 = True"
| "np_number (Extension numeric) = numeric"
| "np_number Boolean = False"
| "np_number Object = False"
| "np_number Datetime64 = False"
| "np_number Category = False"

definition object :: "dtype \<Rightarrow> bool" where
  "object d \<longleftrightarrow> d = Object"

definition select_dtypes :: "(dtype \<Rightarrow> bool) \<Rightarrow> table \<Rightarrow> table" where
  "select_dtypes include t = t\<lparr>columns := filter (\<lambda>c. include (dtype c)) (columns t)\<rparr>"

text \<open>
  The constructor: \<open>data\<close> is the caller's reference; \<open>data.copy()\<close> makes a new table
  with the same contents, and the analyzer keeps the reference to the new one.
\<close>

definition NetflixExploratoryAnalysis :: "nat \<Rightarrow> world \<Rightarrow> analyzer \<times> world" where
  "NetflixExploratoryAnalysis d w =
     (let (p, w1) = alloc (heap w ! d) w
      in (\<lparr>eda_data = p,
           numerical_cols = column_names (select_dtypes np_number (heap w1 ! d)),
           categorical_cols = column_names (select_dtypes object (heap w1 ! d))\<rparr>, w1))"

text \<open>Raising inside a sequence of library calls that do not touch the heap.\<close>

definition and_then :: "error + 'a \<Rightarrow> ('a \<Rightarrow> error + 'b) \<Rightarrow> error + 'b" where
  "and_then r f = (case r of Inl e \<Rightarrow> Inl e | Inr x \<Rightarrow> f x)"

definition check :: "error option \<Rightarrow> error + 'a \<Rightarrow> error + 'a" where
  "check r k = (case r of Some e \<Rightarrow> Inl e | None \<Rightarrow> k)"

text \<open>
  \<open>summary.loc[label] = series\<close>: the row of that label takes, in each column, the
  value the series has under the column's name (missing when it has none); a label
  that is not in the index yet is appended.
\<close>

definition loc_setitem :: "table \<Rightarrow> cell \<Rightarrow> (string \<times> cell) list \<Rightarrow> table" where
  "loc_setitem t label s =
     (let new = (\<lambda>c. case map_of s (name c) of None \<Rightarrow> NaN | Some v \<Rightarrow> v)
      in if label \<in> set (index t)
         then t\<lparr>columns :=
                  map (\<lambda>c. c\<lparr>vals := map (\<lambda>lv. if fst lv = label then new c else snd lv)
                                          (zip (index t) (vals c))\<rparr>) (columns t)\<rparr>
         else \<lparr>index = index t @ [label],
               columns = map (\<lambda>c. c\<lparr>vals := vals c @ [new c]\<rparr>) (columns t)\<rparr>)"

definition statistical_summary :: "lib \<Rightarrow> table \<Rightarrow> string list \<Rightarrow> error + table" where
  "statistical_summary L t cols =
     and_then (getitem_list t cols) (\<lambda>cs.
     and_then (pd_describe L cs) (\<lambda>summary.
     and_then (pd_var L cs) (\<lambda>v.
     and_then (pd_skew L cs) (\<lambda>s.
     and_then (pd_kurtosis L cs) (\<lambda>k.
       Inr (pd_round L 2
         (loc_setitem (loc_setitem (loc_setitem summary (Str ''variance'') v)
            (Str ''skewness'') s) (Str ''kurtosis'') k)))))))"

definition generate_statistical_summary :: "lib \<Rightarrow> analyzer \<Rightarrow> world \<Rightarrow> (error + table) \<times> world" where
  "generate_statistical_summary L self w =
     (let w1 = say GeneratingSummary w
      in (statistical_summary L (heap w1 ! eda_data self) (numerical_cols self), w1))"

definition analyze_distributions :: "lib \<Rightarrow> analyzer \<Rightarrow> bool \<Rightarrow> world \<Rightarrow> (error + unit) \<times> world" where
  "analyze_distributions L self save_plots w =
     (let w1 = say AnalyzingDistributions w
      in case getitem_list (heap w1 ! eda_data self) (numerical_cols self) of
           Inl e \<Rightarrow> (Inl e, w1)
         | Inr cs \<Rightarrow>
             (let fig = Distributions (map (\<lambda>c. (name c, filter (\<lambda>x. x \<noteq> NaN) (vals c))) cs)
              in case plt_draw L fig of
                   Some e \<Rightarrow> (Inl e, w1)
                 | None \<Rightarrow>
                     (if save_plots then
                        (case plt_savefig L fig of
                           Some e \<Rightarrow> (Inl e, w1)
                         | None \<Rightarrow> (check (plt_show L fig) (Inr ()), say PlotsSaved w1))
                      else (check (plt_show L fig) (Inr ()), w1))))"

definition correlation_matrix :: "lib \<Rightarrow> table \<Rightarrow> string list \<Rightarrow> string \<Rightarrow> error + table" where
  "correlation_matrix L t cols method =
     and_then (getitem_list t cols) (\<lambda>cs.
     and_then (pd_corr L method cs) (\<lambda>corr_matrix.
       check (plt_draw L (Heatmap corr_matrix method))
         (check (plt_show L (Heatmap corr_matrix method)) (Inr corr_matrix))))"

definition correlation_analysis :: "lib \<Rightarrow> analyzer \<Rightarrow> string \<Rightarrow> world \<Rightarrow> (error + table) \<times> world" where
  "correlation_analysis L self method w =
     (let w1 = say (PerformingCorrelation method) w
      in (correlation_matrix L (heap w1 ! eda_data self) (numerical_cols self) method, w1))"

subsection \<open>Outliers\<close>

text \<open>
  A series is a column with its row labels. \<open>series.dropna()\<close> keeps the entries that
  are not missing.
\<close>

type_synonym series = "(cell \<times> cell) list"

definition series_of :: "table \<Rightarrow> column \<Rightarrow> series" where
  "series_of t c = zip (index t) (vals c)"

definition series_dropna :: "series \<Rightarrow> series" where
  "series_dropna s = filter (\<lambda>lv. snd lv \<noteq> NaN) s"

text \<open>
  The numeric values of a series: numbers, and timestamps as their count of
  nanoseconds; on anything else the library raises a TypeError.
\<close>

fun quantile_value :: "cell \<Rightarrow> rat option" where
  "quantile_value (Num r) = Some r"
| "quantile_value (Stamp i) = Some (of_int i)"
| "quantile_value _ = None"

fun values_of :: "(cell \<Rightarrow> rat option) \<Rightarrow> cell list \<Rightarrow> error + rat list" where
  "values_of f [] = Inr []"
| "values_of f (x # xs) =
     (case f x of
        None \<Rightarrow> Inl TypeError
      | Some r \<Rightarrow> (case values_of f xs of Inl e \<Rightarrow> Inl e | Inr rs \<Rightarrow> Inr (r # rs)))"

text \<open>
  \<open>series.quantile(q)\<close> with the default linear interpolation: on the sorted values
  \<open>s\<close>, the value at the virtual position \<open>(n - 1) * q\<close>, interpolated between its two
  neighbours. The quantile of an empty series is NaN (\<open>None\<close> here).
\<close>

definition quantile :: "rat list \<Rightarrow> rat \<Rightarrow> rat option" where
  "quantile xs q =
     (if xs = [] then None
      else (let s = sort xs;
                pos = of_nat (length xs - 1) * q;
                lo = nat \<lfloor>pos\<rfloor>;
                hi = min (lo + 1) (length xs - 1);
                gamma = pos - of_int \<lfloor>pos\<rfloor>
            in Some (s ! lo + (s ! hi - s ! lo) * gamma)))"

text \<open>Floating-point arithmetic and comparisons with NaN.\<close>

definition nan_op :: "(rat \<Rightarrow> rat \<Rightarrow> rat) \<Rightarrow> rat option \<Rightarrow> rat option \<Rightarrow> rat option" where
  "nan_op f a b = (case a of None \<Rightarrow> None | Some x \<Rightarrow> (case b of None \<Rightarrow> None | Some y \<Rightarrow> Some (f x y)))"

definition nan_less :: "rat option \<Rightarrow> rat option \<Rightarrow> bool" where
  "nan_less a b = (case a of None \<Rightarrow> False | Some x \<Rightarrow> (case b of None \<Rightarrow> False | Some y \<Rightarrow> x < y))"

datatype stats_dict =
    Empty_dict
  | Stats_IQR (lower_bound: "rat option") (upper_bound: "rat option")
        (n_outliers: nat) (outlier_percentage: rat)
  | Stats_Z_score (threshold: nat) (n_outliers: nat) (outlier_percentage: rat)

definition method_name :: "stats_dict \<Rightarrow> string" where
  "method_name d = (case d of Stats_IQR _ _ _ _ \<Rightarrow> ''IQR'' | Stats_Z_score _ _ _ \<Rightarrow> ''Z-score'' | Empty_dict \<Rightarrow> [])"

text \<open>\<open>(len(outliers) / len(data)) * 100\<close>: the division of two integers raises on 0.\<close>

definition percentage :: "nat \<Rightarrow> nat \<Rightarrow> error + rat" where
  "percentage k n = (if n = 0 then Inl ZeroDivisionError else Inr (of_nat k / of_nat n * 100))"

definition iqr_outliers :: "series \<Rightarrow> error + series \<times> stats_dict" where
  "iqr_outliers data =
     and_then (values_of quantile_value (map snd data)) (\<lambda>xs.
       (let Q1 = quantile xs (1 / 4);
            Q3 = quantile xs (3 / 4);
            IQR = nan_op (-) Q3 Q1;
            lower_bound = nan_op (-) Q1 (nan_op (*) (Some (3 / 2)) IQR);
            upper_bound = nan_op (+) Q3 (nan_op (*) (Some (3 / 2)) IQR);
            outliers = take_pos (nonzero (map (\<lambda>x. nan_less (Some x) lower_bound
                                                  \<or> nan_less upper_bound (Some x)) xs)) data
        in and_then (percentage (length outliers) (length data)) (\<lambda>pct.
             Inr (outliers, Stats_IQR lower_bound upper_bound (length outliers) pct))))"

definition zscore_outliers :: "lib \<Rightarrow> series \<Rightarrow> error + series \<times> stats_dict" where
  "zscore_outliers L data =
     and_then (values_of quantile_value (map snd data)) (\<lambda>xs.
       (let z_scores = map (map_option abs) (stats_zscore L xs)
        in if length z_scores \<noteq> length data then Inl IndexError
           else (let outliers = take_pos (nonzero (map (\<lambda>z. nan_less (Some 3) z) z_scores)) data
                 in and_then (percentage (length outliers) (length data)) (\<lambda>pct.
                      Inr (outliers, Stats_Z_score 3 (length outliers) pct)))))"

definition detect_outliers ::
  "lib \<Rightarrow> analyzer \<Rightarrow> string \<Rightarrow> string \<Rightarrow> world \<Rightarrow> (error + cell list \<times> stats_dict) \<times> world" where
  "detect_outliers L self column method w =
     (if column \<notin> set (numerical_cols self)
      then (Inr ([], Empty_dict), say (NotNumerical column) w)
      else case getitem (heap w ! eda_data self) column of
             Inl e \<Rightarrow> (Inl e, w)
           | Inr c \<Rightarrow>
               (let data = series_dropna (series_of (heap w ! eda_data self) c);
                    found = (if method = ''iqr'' then map_sum id Some (iqr_outliers data)
                             else if method = ''zscore'' then map_sum id Some (zscore_outliers L data)
                             else Inr None)
                in case found of
                     Inl e \<Rightarrow> (Inl e, w)
                   | Inr None \<Rightarrow>
                       (Inl (UnboundLocalError ''stats_dict''), say (OutliersDetected column) w)
                   | Inr (Some (outliers, stats_dict)) \<Rightarrow>
                       (Inr (map fst outliers, stats_dict),
                        say (OutlierPercentage (outlier_percentage stats_dict))
                          (say (OutlierCount (n_outliers stats_dict))
                            (say (OutlierMethod (method_name stats_dict))
                              (say (OutliersDetected column) w))))))"

subsection \<open>Categorical columns\<close>

text \<open>
  \<open>series.value_counts()\<close>: the values that are not missing with their number of
  occurrences, the most frequent first (among equally frequent values, the one met
  first comes first here; the library leaves their order open).
  \<open>series.nunique()\<close>: the number of distinct values that are not missing.
\<close>

definition value_counts :: "cell list \<Rightarrow> (cell \<times> nat) list" where
  "value_counts xs =
     (let ys = filter (\<lambda>x. x \<noteq> NaN) xs
      in sort_key (\<lambda>kv. - int (snd kv)) (map (\<lambda>v. (v, count_list ys v)) (rev (remdups (rev ys)))))"

definition nunique :: "cell list \<Rightarrow> nat" where
  "nunique xs = length (remdups (filter (\<lambda>x. x \<noteq> NaN) xs))"

record cat_profile =
  unique_values :: nat
  most_common :: cell
  most_common_count :: nat
  distribution :: "(cell \<times> nat) list"

text \<open>
  The entry of one column: \<open>value_counts.index[0]\<close> and \<open>value_counts.iloc[0]\<close> raise
  an IndexError when the counts are empty.
\<close>

definition categorical_profile :: "table \<Rightarrow> string \<Rightarrow> error + cat_profile" where
  "categorical_profile t col =
     and_then (getitem t col) (\<lambda>c.
       (case value_counts (vals c) of
          [] \<Rightarrow> Inl IndexError
        | kv # _ \<Rightarrow>
            Inr \<lparr>unique_values = nunique (vals c),
                 most_common = fst kv,
                 most_common_count = snd kv,
                 distribution = value_counts (vals c)\<rparr>))"

fun categorical_loop ::
  "table \<Rightarrow> string list \<Rightarrow> (string \<rightharpoonup> cat_profile) \<Rightarrow> world
     \<Rightarrow> (error + (string \<rightharpoonup> cat_profile)) \<times> world" where
  "categorical_loop t [] results w = (Inr results, w)"
| "categorical_loop t (col # cols) results w =
     (case categorical_profile t col of
        Inl e \<Rightarrow> (Inl e, w)
      | Inr r \<Rightarrow>
          categorical_loop t cols (results(col \<mapsto> r))
            (say (CategoricalMostCommon (most_common r) (most_common_count r))
              (say (CategoricalUnique (unique_values r))
                (say (CategoricalColumn col) w))))"

definition categorical_analysis ::
  "analyzer \<Rightarrow> world \<Rightarrow> (error + (string \<rightharpoonup> cat_profile)) \<times> world" where
  "categorical_analysis self w =
     (let w1 = say AnalyzingCategorical w
      in categorical_loop (heap w1 ! eda_data self) (categorical_cols self) Map.empty w1)"

subsection \<open>Time series\<close>

text \<open>
  \<open>series.dt.date\<close>: the calendar date of each timestamp (a day has
  86400000000000 nanoseconds); the accessor exists on timestamps only.
\<close>

fun dt_date :: "cell list \<Rightarrow> error + cell list" where
  "dt_date [] = Inr []"
| "dt_date (x # xs) =
     (case (case x of NaN \<Rightarrow> Some NaN | Stamp ns \<Rightarrow> Some (Date (ns div 86400000000000)) | _ \<Rightarrow> None) of
        None \<Rightarrow> Inl AttributeError
      | Some d \<Rightarrow> (case dt_date xs of Inl e \<Rightarrow> Inl e | Inr ds \<Rightarrow> Inr (d # ds)))"

fun agg_value :: "cell \<Rightarrow> rat option" where
  "agg_value (Num r) = Some r"
| "agg_value (Flag b) = Some (if b then 1 else 0)"
| "agg_value _ = None"

text \<open>
  \<open>df.groupby(keys)[value_column].agg(['mean', 'sum', 'count'])\<close>: one row for each
  date among the keys, in ascending order, with the mean, the sum and the number of
  the values of its rows that are not missing. Rows whose key is missing belong to no
  group.
\<close>

definition group_values :: "cell list \<Rightarrow> cell list \<Rightarrow> int \<Rightarrow> cell list" where
  "group_values keys vs g =
     map snd (filter (\<lambda>kv. fst kv = Date g \<and> snd kv \<noteq> NaN) (zip keys vs))"

definition groupby_agg :: "cell list \<Rightarrow> column \<Rightarrow> error + table" where
  "groupby_agg keys c =
     and_then (values_of agg_value (filter (\<lambda>x. x \<noteq> NaN) (vals c))) (\<lambda>_.
       (let groups = sort (remdups (concat (map (\<lambda>k. case k of Date g \<Rightarrow> [g] | _ \<Rightarrow> []) keys)));
            nums = (\<lambda>g. concat (map (\<lambda>x. case agg_value x of Some r \<Rightarrow> [r] | None \<Rightarrow> [])
                                   (group_values keys (vals c) g)))
        in Inr \<lparr>index = map Date groups,
                columns =
                  [\<lparr>name = ''mean'', dtype = Float64,
                    vals = map (\<lambda>g. if nums g = [] then NaN
                                     else Num (sum_list (nums g) / of_nat (length (nums g)))) groups\<rparr>,
                   \<lparr>name = ''sum'', dtype = Float64,
                    vals = map (\<lambda>g. Num (sum_list (nums g))) groups\<rparr>,
                   \<lparr>name = ''count'', dtype = Int64,
                    vals = map (\<lambda>g. Num (of_nat (length (nums g)))) groups\<rparr>]\<rparr>))"

definition time_series :: "lib \<Rightarrow> table \<Rightarrow> string \<Rightarrow> string \<Rightarrow> error + table" where
  "time_series L t date_column value_column =
     and_then (getitem t date_column) (\<lambda>d.
     and_then (dt_date (vals d)) (\<lambda>keys.
     and_then (getitem t value_column) (\<lambda>c.
     and_then (groupby_agg keys c) (\<lambda>ts_data.
       check (plt_draw L (Trends ts_data value_column))
         (check (plt_show L (Trends ts_data value_column)) (Inr ts_data))))))"

text \<open>
  \<open>self.data[date_column] = pd.to_datetime(self.data[date_column])\<close> writes into the
  analyzer's table before anything is grouped; what follows may still raise.
\<close>

definition time_series_analysis ::
  "lib \<Rightarrow> analyzer \<Rightarrow> string \<Rightarrow> string \<Rightarrow> world \<Rightarrow> (error + table) \<times> world" where
  "time_series_analysis L self date_column value_column w =
     (let w1 = say PerformingTimeSeries w
      in case getitem (heap w1 ! eda_data self) date_column of
           Inl e \<Rightarrow> (Inl e, w1)
         | Inr c \<Rightarrow>
             (case pd_to_datetime L c of
                Inl e \<Rightarrow> (Inl e, w1)
              | Inr ds \<Rightarrow>
                  (let w2 = store (eda_data self)
                              (setitem (heap w1 ! eda_data self) date_column Datetime64 ds) w1
                   in (time_series L (heap w2 ! eda_data self) date_column value_column, w2))))"

text \<open>
  A caller's sequence of calls on an analyzer. A call that raises leaves the world as
  it was when it raised, and the caller may go on with the next call.
\<close>

datatype analyzer_call =
    Generate_statistical_summary
  | Analyze_distributions bool
  | Correlation_analysis string
  | Detect_outliers string string
  | Categorical_analysis
  | Time_series_analysis string string

fun analyzer_step :: "lib \<Rightarrow> analyzer \<Rightarrow> analyzer_call \<Rightarrow> world \<Rightarrow> world" where
  "analyzer_step L self Generate_statistical_summary w = snd (generate_statistical_summary L self w)"
| "analyzer_step L self (Analyze_distributions b) w = snd (analyze_distributions L self b w)"
| "analyzer_step L self (Correlation_analysis m) w = snd (correlation_analysis L self m w)"
| "analyzer_step L self (Detect_outliers c m) w = snd (detect_outliers L self c m w)"
| "analyzer_step L self Categorical_analysis w = snd (categorical_analysis self w)"
| "analyzer_step L self (Time_series_analysis d v) w = snd (time_series_analysis L self d v w)"

definition run_analyzer :: "lib \<Rightarrow> analyzer \<Rightarrow> analyzer_call list \<Rightarrow> world \<Rightarrow> world" where
  "run_analyzer L self calls w = foldl (\<lambda>w c. analyzer_step L self c w) w calls"

section \<open>Notions used in the properties\<close>

text \<open>
  A row matches a column and a value when its entry under that column equals the
  value in the sense of \<open>==\<close>.
\<close>

definition row_matches :: "string \<Rightarrow> cell \<Rightarrow> row \<Rightarrow> bool" where
  "row_matches column v r = (case map_of (snd r) column of None \<Rightarrow> False | Some x \<Rightarrow> py_eq x v)"

text \<open>A column of a table has values when it exists and not all its entries are missing.\<close>

definition has_values :: "table \<Rightarrow> string \<Rightarrow> bool" where
  "has_values t col =
     (case getitem t col of Inl e \<Rightarrow> False | Inr c \<Rightarrow> list_ex (\<lambda>x. x \<noteq> NaN) (vals c))"

text \<open>The number in a numeric cell.\<close>

definition the_num :: "cell \<Rightarrow> rat" where
  "the_num x = (case x of Num r \<Rightarrow> r | _ \<Rightarrow> 0)"

text \<open>A report of outliers has a positive pair of bounds when both are numbers above 0.\<close>

definition bounds_positive :: "stats_dict \<Rightarrow> bool" where
  "bounds_positive d =
     (case d of Stats_IQR l u n pct \<Rightarrow> nan_less (Some 0) l \<and> nan_less (Some 0) u | _ \<Rightarrow> False)"

text \<open>
  The caller holds a table at address 0 of an otherwise empty store and builds an
  analyzer over it.
\<close>

definition analyzer_of :: "table \<Rightarrow> analyzer \<times> world" where
  "analyzer_of t = NetflixExploratoryAnalysis 0 \<lparr>heap = [t], out = []\<rparr>"

section \<open>Example data\<close>

text \<open>
  A library for the evaluations below: it finds no file, computes no statistics, draws
  nothing and raises nowhere else; it reads numbers as timestamps in nanoseconds and
  refuses strings.
\<close>

definition numbers_to_datetime :: "column \<Rightarrow> error + cell list" where
  "numbers_to_datetime c =
     (if list_ex (\<lambda>x. case x of Str _ \<Rightarrow> True | Flag _ \<Rightarrow> True | Date _ \<Rightarrow> True | _ \<Rightarrow> False) (vals c)
      then Inl (LibraryError ''to_datetime'')
      else Inr (map (\<lambda>x. case x of Num r \<Rightarrow> Stamp \<lfloor>r\<rfloor> | y \<Rightarrow> y) (vals c)))"

definition example_lib :: lib where
  "example_lib =
     \<lparr>pd_read_csv = (\<lambda>path. Inl FileNotFoundError),
      pd_describe = (\<lambda>cs. Inl (LibraryError ''describe'')),
      pd_var = (\<lambda>cs. Inr []),
      pd_skew = (\<lambda>cs. Inr []),
      pd_kurtosis = (\<lambda>cs. Inr []),
      pd_round = (\<lambda>n t. t),
      pd_corr = (\<lambda>m cs. Inl (LibraryError ''corr'')),
      pd_to_datetime = numbers_to_datetime,
      stats_zscore = (\<lambda>xs. map (\<lambda>x. None) xs),
      plt_draw = (\<lambda>fig. None),
      plt_savefig = (\<lambda>fig. None),
      plt_show = (\<lambda>fig. None)\<rparr>"

text \<open>A loaded table with missing entries in two of its three rows.\<close>

definition ratings_table :: table where
  "ratings_table =
     \<lparr>index = [Num 0, Num 1, Num 2],
      columns =
        [\<lparr>name = ''title'', dtype = Object, vals = [Str ''A'', NaN, Str ''B'']\<rparr>,
         \<lparr>name = ''rating'', dtype = Float64, vals = [Num 4, Num 3, NaN]\<rparr>]\<rparr>"

definition ratings_loader :: loader where
  "ratings_loader = \<lparr>data_path = ''./data'', loader_data = Some 0\<rparr>"

definition ratings_world :: world where
  "ratings_world = \<lparr>heap = [ratings_table], out = []\<rparr>"

text \<open>The numbers 1, 2, 3, 4, 5 and 1000, in this order and in another with a gap.\<close>

definition outlier_table :: table where
  "outlier_table =
     \<lparr>index = [Num 0, Num 1, Num 2, Num 3, Num 4, Num 5],
      columns =
        [\<lparr>name = ''x'', dtype = Int64,
          vals = [Num 1, Num 2, Num 3, Num 4, Num 5, Num 1000]\<rparr>]\<rparr>"

definition shuffled_table :: table where
  "shuffled_table =
     \<lparr>index = [Num 0, Num 1, Num 2, Num 3, Num 4, Num 5, Num 6],
      columns =
        [\<lparr>name = ''x'', dtype = Float64,
          vals = [Num 3, Num 1000, NaN, Num 1, Num 5, Num 2, Num 4]\<rparr>]\<rparr>"

text \<open>A table with a column of each kind.\<close>

definition viewing_table :: table where
  "viewing_table =
     \<lparr>index = [Num 0, Num 1, Num 2],
      columns =
        [\<lparr>name = ''genre'', dtype = Object, vals = [Str ''A'', Str ''A'', Str ''B'']\<rparr>,
         \<lparr>name = ''watched'', dtype = Boolean, vals = [Flag True, Flag False, Flag True]\<rparr>,
         \<lparr>name = ''day'', dtype = Int64, vals = [Num 0, Num 1, Num 86400000000000]\<rparr>,
         \<lparr>name = ''minutes'', dtype = Float64, vals = [Num 30, NaN, Num 45]\<rparr>]\<rparr>"

text \<open>A table with two columns of the same name.\<close>

definition duplicate_table :: table where
  "duplicate_table =
     \<lparr>index = [Num 0, Num 1],
      columns =
        [\<lparr>name = ''id'', dtype = Int64, vals = [Num 7, Num 8]\<rparr>,
         \<lparr>name = ''id'', dtype = Object, vals = [Str ''a'', Str ''b'']\<rparr>]\<rparr>"

text \<open>A table with a column without any value beside a column with the values A, A, B.\<close>

definition notes_table :: table where
  "notes_table =
     \<lparr>index = [Num 0, Num 1, Num 2],
      columns =
        [\<lparr>name = ''note'', dtype = Object, vals = [NaN, NaN, NaN]\<rparr>,
         \<lparr>name = ''genre'', dtype = Object, vals = [Str ''A'', Str ''A'', Str ''B'']\<rparr>]\<rparr>"

text \<open>A table whose columns have no value at all.\<close>

definition missing_table :: table where
  "missing_table =
     \<lparr>index = [Num 0, Num 1],
      columns =
        [\<lparr>name = ''x'', dtype = Float64, vals = [NaN, NaN]\<rparr>,
         \<lparr>name = ''label'', dtype = Object, vals = [NaN, NaN]\<rparr>]\<rparr>"

section \<open>Positions, rows and masks\<close>

lemma nonzero_map: "nonzero (map P xs) = filter (\<lambda>i. P (xs ! i)) [0..<length xs]"
  unfolding nonzero_def by (rule filter_cong) auto

lemma nonzero_map_upt: "nonzero (map P [0..<n]) = filter P [0..<n]"
  unfolding nonzero_def by (rule filter_cong) auto

lemma take_pos_nonzero_map:
  "take_pos (nonzero (map (\<lambda>x. P (f x)) xs)) xs = filter (\<lambda>x. P (f x)) xs"
proof -
  have "filter (\<lambda>x. P (f x)) (map (\<lambda>i. xs ! i) [0..<length xs])
        = map (\<lambda>i. xs ! i) (filter (\<lambda>i. P (f (xs ! i))) [0..<length xs])"
    by (simp add: filter_map comp_def)
  then show ?thesis
    by (simp add: take_pos_def nonzero_map map_nth)
qed

lemma rows_of_take_rows: "rows_of (take_rows js t) = map (row_at t) js"
proof -
  have "map (row_at (take_rows js t)) [0..<length js] = map (\<lambda>j. row_at t (js ! j)) [0..<length js]"
    by (rule map_cong) (auto simp: row_at_def take_rows_def take_pos_def)
  also have "\<dots> = map (row_at t) (map (\<lambda>j. js ! j) [0..<length js])"
    by (simp add: comp_def)
  also have "\<dots> = map (row_at t) js"
    by (simp add: map_nth)
  finally show ?thesis
    by (simp add: rows_of_def len_def take_rows_def take_pos_def)
qed

lemma filter_rows_of:
  "filter P (rows_of t) = map (row_at t) (filter (\<lambda>i. P (row_at t i)) [0..<len t])"
  by (simp add: rows_of_def filter_map comp_def)

lemma len_rows_of: "len t = length (rows_of t)"
  by (simp add: rows_of_def)

section \<open>Missing values\<close>

lemma rows_of_dropna: "rows_of (dropna t) = filter (\<lambda>r. \<not> row_has_missing r) (rows_of t)"
  by (simp add: dropna_def rows_of_take_rows filter_rows_of nonzero_map_upt)

lemma len_dropna:
  "len (dropna t) = len t - length (filter row_has_missing (rows_of t))"
proof -
  have "length (filter row_has_missing (rows_of t))
          + length (filter (\<lambda>r. \<not> row_has_missing r) (rows_of t)) = length (rows_of t)"
    by (rule sum_length_filter_compl)
  then show ?thesis
    by (simp add: len_rows_of rows_of_dropna)
qed

lemma len_fillna: "len (fillna v t) = len t"
  by (simp add: fillna_def len_def)

lemma total_missing_fillna: "v \<noteq> NaN \<Longrightarrow> total_missing (fillna v t) = 0"
  by (auto simp: total_missing_def isnull_sum_def fillna_def comp_def filter_empty_conv)

lemma ratings_table_missing_rows:
  "len ratings_table = 3 \<and> length (filter row_has_missing (rows_of ratings_table)) = 2"
  by (simp add: ratings_table_def rows_of_def row_at_def row_has_missing_def len_def)

text \<open>
  Claim C3.  When a table is loaded, \<open>handle_missing_values\<close> with strategy \<open>drop\<close>
  returns a table whose number of rows is that of the loaded table minus the number of
  its rows with at least one missing value; with strategy \<open>fill\<close> it returns a table
  with no missing value and as many rows as the loaded table.
\<close>

theorem handle_missing_values_drop_fill:
  assumes "loader_data self = Some p"
  shows "(\<exists>q w'. handle_missing_values self ''drop'' w = (Some q, self, w') \<and>
            len (heap w' ! q)
              = len (heap w ! p) - length (filter row_has_missing (rows_of (heap w ! p))))
       \<and> (\<exists>q w'. handle_missing_values self ''fill'' w = (Some q, self, w') \<and>
            total_missing (heap w' ! q) = 0 \<and> len (heap w' ! q) = len (heap w ! p))"
  using assms
  by (simp add: handle_missing_values_def alloc_def say_def len_dropna len_fillna
      total_missing_fillna)

theorem handle_missing_values_drop_fill_witness:
  "loader_data ratings_loader = Some 0
   \<and> (\<exists>q w'. handle_missing_values ratings_loader ''drop'' ratings_world
                = (Some q, ratings_loader, w') \<and> len (heap w' ! q) = 1)
   \<and> (\<exists>q w'. handle_missing_values ratings_loader ''fill'' ratings_world
                = (Some q, ratings_loader, w') \<and>
              total_missing (heap w' ! q) = 0 \<and> len (heap w' ! q) = 3)"
proof -
  have p: "loader_data ratings_loader = Some 0"
    by (simp add: ratings_loader_def)
  have t: "heap ratings_world ! 0 = ratings_table"
    by (simp add: ratings_world_def)
  show ?thesis
    using handle_missing_values_drop_fill [OF p, of ratings_world] p
    by (simp only: t ratings_table_missing_rows) simp
qed

text \<open>
  Claim C4.  When a table is loaded and the strategy is neither \<open>drop\<close> nor \<open>fill\<close>,
  \<open>handle_missing_values\<close> reports the invalid strategy and returns the loaded table
  itself; nothing in the store changes.
\<close>

theorem handle_missing_values_invalid_strategy:
  assumes "loader_data self = Some p" and "strategy \<noteq> ''drop''" and "strategy \<noteq> ''fill''"
  shows "handle_missing_values self strategy w = (Some p, self, say InvalidStrategy w)
       \<and> heap (say InvalidStrategy w) = heap w
       \<and> out (say InvalidStrategy w) = out w @ [InvalidStrategy]"
  using assms by (simp add: handle_missing_values_def say_def)

theorem handle_missing_values_invalid_strategy_witness:
  "handle_missing_values ratings_loader ''mean'' ratings_world
     = (Some 0, ratings_loader, say InvalidStrategy ratings_world)
   \<and> heap (say InvalidStrategy ratings_world) = [ratings_table]
   \<and> out (say InvalidStrategy ratings_world) = [InvalidStrategy]"
  using handle_missing_values_invalid_strategy [of ratings_loader 0 "''mean''" ratings_world]
  by (simp add: ratings_loader_def ratings_world_def)

section \<open>Columns by name\<close>

lemma find_map_of:
  "find (\<lambda>c. name c = k) cs = Some c \<Longrightarrow> map_of (map (\<lambda>c. (name c, f c)) cs) k = Some (f c)"
  by (induction cs) (auto split: if_splits)

lemma find_name_None: "find (\<lambda>c. name c = k) cs = None \<longleftrightarrow> k \<notin> set (map name cs)"
  by (induction cs) auto

lemma getitem_Inr_iff: "(\<exists>c. getitem t k = Inr c) \<longleftrightarrow> k \<in> set (column_names t)"
  using find_name_None [of k "columns t"]
  by (auto simp: getitem_def column_names_def split: option.splits)

lemma getitem_Inl_iff: "(\<exists>e. getitem t k = Inl e) \<longleftrightarrow> k \<notin> set (column_names t)"
  using find_name_None [of k "columns t"]
  by (auto simp: getitem_def column_names_def split: option.splits)

lemma getitem_in_columns: "getitem t k = Inr c \<Longrightarrow> c \<in> set (columns t) \<and> name c = k"
  by (auto simp: getitem_def find_Some_iff split: option.splits)

lemma row_matches_row_at:
  "getitem t k = Inr c \<Longrightarrow> row_matches k v (row_at t i) = py_eq (vals c ! i) v"
  by (auto simp: row_matches_def row_at_def getitem_def find_map_of split: option.splits)

lemma wf_table_length: "wf_table t \<Longrightarrow> c \<in> set (columns t) \<Longrightarrow> length (vals c) = len t"
  by (simp add: wf_table_def list_all_iff)

lemma rows_of_filtered:
  assumes "wf_table t" and "getitem t k = Inr c"
  shows "rows_of (take_rows (nonzero (map (\<lambda>x. py_eq x v) (vals c))) t)
           = filter (row_matches k v) (rows_of t)"
proof -
  have "length (vals c) = len t"
    using assms wf_table_length getitem_in_columns by blast
  then show ?thesis
    using assms(2) by (simp add: rows_of_take_rows filter_rows_of nonzero_map row_matches_row_at)
qed

lemma ratings_table_wf: "wf_table ratings_table"
  by (simp add: wf_table_def ratings_table_def len_def)

lemma ratings_table_rows:
  "filter (row_matches ''title'' (Str ''B'')) (rows_of ratings_table)
     = [(Num 2, [(''title'', Str ''B''), (''rating'', NaN)])]"
  by (simp add: ratings_table_def rows_of_def row_at_def row_matches_def len_def)

text \<open>
  Claim C5.  When a well-formed table is loaded, \<open>filter_by_column\<close> on one of its
  columns returns a table whose rows are exactly the rows of the loaded table with an
  entry equal to the value in that column, in their order, so that its number of rows is
  the number of such rows; on a name that is no column of the table it reports the
  missing column and returns nothing.
\<close>

theorem filter_by_column_rows:
  assumes "loader_data self = Some p" and "wf_table (heap w ! p)"
  shows "(column \<in> set (column_names (heap w ! p)) \<longrightarrow>
           (\<exists>q w'. filter_by_column self column v w = (Some q, self, w') \<and>
              rows_of (heap w' ! q) = filter (row_matches column v) (rows_of (heap w ! p)) \<and>
              len (heap w' ! q) = length (filter (row_matches column v) (rows_of (heap w ! p)))))
       \<and> (column \<notin> set (column_names (heap w ! p)) \<longrightarrow>
           filter_by_column self column v w = (None, self, say (ColumnNotFound column) w))"
proof (intro conjI impI)
  assume "column \<in> set (column_names (heap w ! p))"
  then obtain c where c: "getitem (heap w ! p) column = Inr c"
    using getitem_Inr_iff by blast
  let ?t = "take_rows (nonzero (map (\<lambda>x. py_eq x v) (vals c))) (heap w ! p)"
  have rows: "rows_of ?t = filter (row_matches column v) (rows_of (heap w ! p))"
    using assms(2) c by (rule rows_of_filtered)
  have "len ?t = length (rows_of ?t)"
    by (rule len_rows_of)
  with rows show "\<exists>q w'. filter_by_column self column v w = (Some q, self, w') \<and>
              rows_of (heap w' ! q) = filter (row_matches column v) (rows_of (heap w ! p)) \<and>
              len (heap w' ! q) = length (filter (row_matches column v) (rows_of (heap w ! p)))"
    using assms(1) c by (simp add: filter_by_column_def alloc_def say_def)
next
  assume "column \<notin> set (column_names (heap w ! p))"
  then obtain e where "getitem (heap w ! p) column = Inl e"
    using getitem_Inl_iff by blast
  then show "filter_by_column self column v w = (None, self, say (ColumnNotFound column) w)"
    using assms(1) by (simp add: filter_by_column_def)
qed

theorem filter_by_column_rows_witness:
  "(\<exists>q w'. filter_by_column ratings_loader ''title'' (Str ''B'') ratings_world
              = (Some q, ratings_loader, w') \<and>
            rows_of (heap w' ! q) = [(Num 2, [(''title'', Str ''B''), (''rating'', NaN)])] \<and>
            len (heap w' ! q) = 1)
   \<and> filter_by_column ratings_loader ''genre'' (Str ''B'') ratings_world
       = (None, ratings_loader, say (ColumnNotFound ''genre'') ratings_world)"
proof -
  have p: "loader_data ratings_loader = Some 0"
    by (simp add: ratings_loader_def)
  have t: "heap ratings_world ! 0 = ratings_table"
    by (simp add: ratings_world_def)
  have wf: "wf_table (heap ratings_world ! 0)"
    by (simp only: t ratings_table_wf)
  have names: "column_names ratings_table = [''title'', ''rating'']"
    by (simp add: column_names_def ratings_table_def)
  show ?thesis
    using filter_by_column_rows [OF p wf, of "''title''" "Str ''B''"]
      filter_by_column_rows [OF p wf, of "''genre''" "Str ''B''"]
    by (simp only: t ratings_table_rows names) simp
qed

section \<open>What the operations of the loader leave as it is\<close>

lemma loader_step_frame:
  "loader_step c (self, w) = (self', w') \<Longrightarrow> self' = self \<and> (\<exists>ts. heap w' = heap w @ ts)"
  by (cases c)
     (auto simp: get_basic_info_def show_sample_def handle_missing_values_def
        filter_by_column_def alloc_def say_def Let_def split: option.splits sum.splits if_splits)

lemma run_loader_frame:
  "run_loader calls (self, w) = (self', w') \<Longrightarrow> self' = self \<and> (\<exists>ts. heap w' = heap w @ ts)"
proof (induction calls arbitrary: w)
  case Nil
  then show ?case by (simp add: run_loader_def)
next
  case (Cons c calls)
  obtain s1 w1 where s1: "loader_step c (self, w) = (s1, w1)"
    by force
  then have f1: "s1 = self" "\<exists>ts. heap w1 = heap w @ ts"
    using loader_step_frame by blast+
  from Cons.prems s1 f1 have "run_loader calls (self, w1) = (self', w')"
    by (simp add: run_loader_def)
  then have "self' = self \<and> (\<exists>ts. heap w' = heap w1 @ ts)"
    by (rule Cons.IH)
  with f1 show ?case by auto
qed

text \<open>
  Claim C10.  No operation of the loader other than \<open>load_csv\<close> assigns its stored table:
  after any sequence of calls of \<open>get_basic_info\<close>, \<open>show_sample\<close>,
  \<open>handle_missing_values\<close> and \<open>filter_by_column\<close> the loader is the same, it still
  refers to the table that was loaded, this table is as it was, and the next operation
  reads it: \<open>get_basic_info\<close> describes it, and a cleaning returns a new table at a
  fresh address.
\<close>

theorem loader_data_kept:
  assumes "loader_data self = Some p" and "p < length (heap w)"
    and "run_loader calls (self, w) = (self', w')"
  shows "self' = self \<and> p < length (heap w') \<and> heap w' ! p = heap w ! p
       \<and> fst (get_basic_info self' w') = Some (describe_table (heap w ! p))
       \<and> fst (handle_missing_values self' ''drop'' w') = Some (length (heap w'))
       \<and> fst (handle_missing_values self' ''fill'' w') = Some (length (heap w'))
       \<and> length (heap w') \<noteq> p"
proof -
  from assms(3) have "self' = self" and "\<exists>ts. heap w' = heap w @ ts"
    using run_loader_frame by blast+
  then obtain ts where ts: "heap w' = heap w @ ts" by blast
  with assms(2) have "p < length (heap w')" "heap w' ! p = heap w ! p"
    by (simp_all add: nth_append)
  with \<open>self' = self\<close> assms(1) show ?thesis
    by (simp add: get_basic_info_def handle_missing_values_def alloc_def say_def)
qed

theorem loader_data_kept_witness:
  "fst (run_loader [Handle_missing_values ''drop'', Filter_by_column ''title'' (Str ''B''),
          Get_basic_info, Show_sample 5, Handle_missing_values ''fill'']
         (ratings_loader, ratings_world)) = ratings_loader
   \<and> heap (snd (run_loader [Handle_missing_values ''drop'', Filter_by_column ''title'' (Str ''B''),
          Get_basic_info, Show_sample 5, Handle_missing_values ''fill'']
         (ratings_loader, ratings_world))) ! 0 = ratings_table"
proof -
  have p: "loader_data ratings_loader = Some 0"
    by (simp add: ratings_loader_def)
  have l: "0 < length (heap ratings_world)" and t: "heap ratings_world ! 0 = ratings_table"
    by (simp_all add: ratings_world_def)
  show ?thesis
    using loader_data_kept [OF p l prod.collapse [symmetric]]
    by (simp only: t)
qed

section \<open>What the operations of the analyzer leave as it is\<close>

lemma heap_say [simp]: "heap (say m w) = heap w"
  by (simp add: say_def)

lemma heap_store: "heap (store p t w) = (heap w)[p := t]"
  by (simp add: store_def)

lemma heap_generate_statistical_summary:
  "heap (snd (generate_statistical_summary L self w)) = heap w"
  by (simp add: generate_statistical_summary_def)

lemma heap_analyze_distributions:
  "heap (snd (analyze_distributions L self b w)) = heap w"
  by (simp add: analyze_distributions_def Let_def split: sum.splits option.splits)

lemma heap_correlation_analysis:
  "heap (snd (correlation_analysis L self m w)) = heap w"
  by (simp add: correlation_analysis_def)

lemma heap_detect_outliers:
  "heap (snd (detect_outliers L self c m w)) = heap w"
  by (simp add: detect_outliers_def Let_def split: sum.splits option.splits prod.splits)

lemma heap_categorical_loop:
  "heap (snd (categorical_loop t cols results w)) = heap w"
  by (induction cols arbitrary: results w) (simp_all split: sum.splits)

lemma heap_categorical_analysis:
  "heap (snd (categorical_analysis self w)) = heap w"
  by (simp add: categorical_analysis_def heap_categorical_loop)

lemma heap_time_series_analysis:
  "heap (snd (time_series_analysis L self d v w)) = heap w
   \<or> (\<exists>t. heap (snd (time_series_analysis L self d v w)) = (heap w)[eda_data self := t])"
  by (auto simp: time_series_analysis_def Let_def heap_store split: sum.splits)

lemma analyzer_step_frame:
  "length (heap (analyzer_step L self c w)) = length (heap w)
   \<and> (a \<noteq> eda_data self \<longrightarrow> heap (analyzer_step L self c w) ! a = heap w ! a)"
proof (cases c)
  case (Time_series_analysis d v)
  then show ?thesis
    using heap_time_series_analysis [of L self d v w] by auto
qed (simp_all add: heap_generate_statistical_summary heap_analyze_distributions
      heap_correlation_analysis heap_detect_outliers heap_categorical_analysis)

lemma run_analyzer_frame:
  "length (heap (run_analyzer L self calls w)) = length (heap w)
   \<and> (a \<noteq> eda_data self \<longrightarrow> heap (run_analyzer L self calls w) ! a = heap w ! a)"
proof (induction calls arbitrary: w)
  case Nil
  then show ?case by (simp add: run_analyzer_def)
next
  case (Cons c calls)
  have "run_analyzer L self (c # calls) w = run_analyzer L self calls (analyzer_step L self c w)"
    by (simp add: run_analyzer_def)
  then show ?case
    using Cons.IH [of "analyzer_step L self c w"] analyzer_step_frame [of L self c w a]
    by simp
qed

lemma analyzer_of_store:
  "eda_data (fst (analyzer_of t)) = 1 \<and> heap (snd (analyzer_of t)) = [t, t]"
  by (simp add: analyzer_of_def NetflixExploratoryAnalysis_def alloc_def)

text \<open>
  Claim C7.  The constructor stores a copy of the given table at an address of its own,
  equal to the table given; the caller's table is as it was after the construction and
  after any sequence of operations of the analyzer, \<open>time_series_analysis\<close> included.
\<close>

theorem constructor_copy_independent:
  assumes "d < length (heap w)" and "NetflixExploratoryAnalysis d w = (self, w1)"
  shows "eda_data self \<noteq> d
       \<and> heap w1 ! eda_data self = heap w ! d
       \<and> heap w1 ! d = heap w ! d
       \<and> heap (run_analyzer L self calls w1) ! d = heap w ! d"
proof -
  from assms have 1: "eda_data self = length (heap w)" and 2: "heap w1 = heap w @ [heap w ! d]"
    by (auto simp: NetflixExploratoryAnalysis_def alloc_def)
  with assms(1) have 3: "eda_data self \<noteq> d" "heap w1 ! d = heap w ! d"
    "heap w1 ! eda_data self = heap w ! d"
    by (simp_all add: nth_append)
  with run_analyzer_frame [of L self calls w1 d] show ?thesis
    by simp
qed

theorem constructor_copy_independent_witness:
  "heap (run_analyzer example_lib (fst (analyzer_of viewing_table))
           [Time_series_analysis ''day'' ''minutes'', Categorical_analysis,
            Detect_outliers ''minutes'' ''iqr'']
           (snd (analyzer_of viewing_table))) ! 0 = viewing_table"
  using constructor_copy_independent [of 0 "\<lparr>heap = [viewing_table], out = []\<rparr>"
      "fst (analyzer_of viewing_table)" "snd (analyzer_of viewing_table)" example_lib
      "[Time_series_analysis ''day'' ''minutes'', Categorical_analysis,
        Detect_outliers ''minutes'' ''iqr'']"]
  by (simp add: analyzer_of_def)

lemma getitem_setitem:
  "getitem t k = Inr c \<Longrightarrow> getitem (setitem t k d vs) k = Inr (c\<lparr>dtype := d, vals := vs\<rparr>)"
proof -
  have "find (\<lambda>c. name c = k) cs = Some c \<Longrightarrow>
        find (\<lambda>c. name c = k) (map (\<lambda>c. if name c = k then c\<lparr>dtype := d, vals := vs\<rparr> else c) cs)
          = Some (c\<lparr>dtype := d, vals := vs\<rparr>)" for cs
    by (induction cs) (auto split: if_splits)
  then show "getitem t k = Inr c \<Longrightarrow> getitem (setitem t k d vs) k = Inr (c\<lparr>dtype := d, vals := vs\<rparr>)"
    by (auto simp: getitem_def setitem_def split: option.splits)
qed

lemma viewing_table_day:
  "getitem viewing_table ''day''
     = Inr \<lparr>name = ''day'', dtype = Int64, vals = [Num 0, Num 1, Num 86400000000000]\<rparr>"
  by (simp add: getitem_def viewing_table_def)

lemma example_lib_day:
  "pd_to_datetime example_lib
       \<lparr>name = ''day'', dtype = Int64, vals = [Num 0, Num 1, Num 86400000000000]\<rparr>
     = Inr [Stamp 0, Stamp 1, Stamp 86400000000000]"
  by (simp add: example_lib_def numbers_to_datetime_def)

text \<open>
  Claim C9.  When the date column exists and is read as dates, \<open>time_series_analysis\<close>
  overwrites the table stored by the analyzer: the date column of the stored table
  becomes the column of the dates read, of the datetime type, and this is the column a
  later call finds there.  \<open>generate_statistical_summary\<close>, \<open>correlation_analysis\<close>,
  \<open>detect_outliers\<close> and \<open>categorical_analysis\<close> leave the whole store as it is.
\<close>

theorem time_series_analysis_in_place:
  assumes "eda_data self < length (heap w)"
    and "getitem (heap w ! eda_data self) date_column = Inr c"
    and "pd_to_datetime L c = Inr ds"
    and "w' = snd (time_series_analysis L self date_column value_column w)"
  shows "heap w' ! eda_data self = setitem (heap w ! eda_data self) date_column Datetime64 ds
       \<and> getitem (heap w' ! eda_data self) date_column = Inr (c\<lparr>dtype := Datetime64, vals := ds\<rparr>)
       \<and> heap (snd (generate_statistical_summary L self w)) = heap w
       \<and> heap (snd (correlation_analysis L self how w)) = heap w
       \<and> heap (snd (detect_outliers L self k how w)) = heap w
       \<and> heap (snd (categorical_analysis self w)) = heap w"
proof -
  from assms(2,3,4)
  have "heap w' = (heap w)[eda_data self := setitem (heap w ! eda_data self) date_column Datetime64 ds]"
    by (simp add: time_series_analysis_def Let_def heap_store)
  with assms(1)
  have 1: "heap w' ! eda_data self = setitem (heap w ! eda_data self) date_column Datetime64 ds"
    by simp
  with assms(2) have 2: "getitem (heap w' ! eda_data self) date_column
                      = Inr (c\<lparr>dtype := Datetime64, vals := ds\<rparr>)"
    by (simp add: getitem_setitem)
  from 1 2 show ?thesis
    by (simp add: heap_generate_statistical_summary heap_correlation_analysis
        heap_detect_outliers heap_categorical_analysis)
qed

theorem time_series_analysis_in_place_witness:
  "getitem (heap (snd (time_series_analysis example_lib (fst (analyzer_of viewing_table))
                         ''day'' ''minutes'' (snd (analyzer_of viewing_table)))) ! 1) ''day''
     = Inr \<lparr>name = ''day'', dtype = Datetime64,
            vals = [Stamp 0, Stamp 1, Stamp 86400000000000]\<rparr>
   \<and> heap (snd (categorical_analysis (fst (analyzer_of viewing_table))
                   (snd (analyzer_of viewing_table))))
     = [viewing_table, viewing_table]"
proof -
  let ?A = "fst (analyzer_of viewing_table)"
  let ?W = "snd (analyzer_of viewing_table)"
  have p1: "eda_data ?A < length (heap ?W)"
    by (simp add: analyzer_of_store)
  have p2: "getitem (heap ?W ! eda_data ?A) ''day''
              = Inr \<lparr>name = ''day'', dtype = Int64, vals = [Num 0, Num 1, Num 86400000000000]\<rparr>"
    by (simp add: analyzer_of_store viewing_table_day)
  show ?thesis
    using time_series_analysis_in_place [where value_column = "''minutes''" and how = "''iqr''"
        and k = "''minutes''", OF p1 p2 example_lib_day refl]
    by (simp add: analyzer_of_store getitem_setitem viewing_table_day)
qed

section \<open>The columns the analyzer works on\<close>

lemma analyzer_of_cols:
  "numerical_cols (fst (analyzer_of t)) = column_names (select_dtypes np_number t)
   \<and> categorical_cols (fst (analyzer_of t)) = column_names (select_dtypes object t)"
  by (simp add: analyzer_of_def NetflixExploratoryAnalysis_def alloc_def)

lemma viewing_table_cols:
  "column_names viewing_table = [''genre'', ''watched'', ''day'', ''minutes'']
   \<and> numerical_cols (fst (analyzer_of viewing_table)) = [''day'', ''minutes'']
   \<and> categorical_cols (fst (analyzer_of viewing_table)) = [''genre'']"
  by (simp add: analyzer_of_cols column_names_def select_dtypes_def object_def
      viewing_table_def)

lemma duplicate_table_cols:
  "numerical_cols (fst (analyzer_of duplicate_table)) = [''id'']
   \<and> categorical_cols (fst (analyzer_of duplicate_table)) = [''id'']"
  by (simp add: analyzer_of_cols column_names_def select_dtypes_def object_def
      duplicate_table_def)

text \<open>
  Claim C6, as amended.  When the names of the columns of the table given to the
  constructor are distinct: the numerical list holds exactly the names of the columns
  whose type is a number type for \<open>select_dtypes\<close>, the categorical list exactly the
  names of the columns of type \<open>object\<close>; no name is in both lists; the name of a column
  of any other type is in neither list; and the two lists together hold all the names of
  the columns exactly when every column is of a number type or of type \<open>object\<close>.
\<close>

theorem column_classification:
  assumes "d < length (heap w)"
    and "distinct (column_names (heap w ! d))"
    and "NetflixExploratoryAnalysis d w = (self, w1)"
  shows "set (numerical_cols self)
           = name ` {c \<in> set (columns (heap w ! d)). np_number (dtype c)}
       \<and> set (categorical_cols self)
           = name ` {c \<in> set (columns (heap w ! d)). object (dtype c)}
       \<and> set (numerical_cols self) \<inter> set (categorical_cols self) = {}
       \<and> name ` {c \<in> set (columns (heap w ! d)). \<not> np_number (dtype c) \<and> \<not> object (dtype c)}
           \<inter> (set (numerical_cols self) \<union> set (categorical_cols self)) = {}
       \<and> (set (numerical_cols self) \<union> set (categorical_cols self)
              = set (column_names (heap w ! d))
            \<longleftrightarrow> list_all (\<lambda>c. np_number (dtype c) \<or> object (dtype c)) (columns (heap w ! d)))"
proof -
  let ?cs = "columns (heap w ! d)"
  let ?N = "{c \<in> set ?cs. np_number (dtype c)}"
  let ?O = "{c \<in> set ?cs. object (dtype c)}"
  let ?R = "{c \<in> set ?cs. \<not> np_number (dtype c) \<and> \<not> object (dtype c)}"
  have inj: "inj_on name (set ?cs)"
    using assms(2) by (simp add: column_names_def distinct_map)
  from assms(1,3)
  have n: "set (numerical_cols self) = name ` ?N"
    and c: "set (categorical_cols self) = name ` ?O"
    by (auto simp: NetflixExploratoryAnalysis_def alloc_def nth_append column_names_def
        select_dtypes_def)
  have sub: "?N \<subseteq> set ?cs" "?O \<subseteq> set ?cs" "?R \<subseteq> set ?cs" "?N \<union> ?O \<subseteq> set ?cs"
    by blast+
  have excl: "\<not> (np_number t \<and> object t)" for t
    by (cases t) (simp_all add: object_def)
  have "name ` (?N \<inter> ?O) = name ` ?N \<inter> name ` ?O"
    using inj sub(1) sub(2) by (rule inj_on_image_Int)
  moreover have "?N \<inter> ?O = {}"
    using excl by blast
  ultimately have 1: "name ` ?N \<inter> name ` ?O = {}"
    by simp
  have "name ` (?R \<inter> (?N \<union> ?O)) = name ` ?R \<inter> name ` (?N \<union> ?O)"
    using inj sub(3) sub(4) by (rule inj_on_image_Int)
  moreover have "?R \<inter> (?N \<union> ?O) = {}"
    by blast
  ultimately have 2: "name ` ?R \<inter> (name ` ?N \<union> name ` ?O) = {}"
    by (simp only: image_Un image_empty)
  have names: "set (column_names (heap w ! d)) = name ` set ?cs"
    by (simp add: column_names_def)
  have "name ` (?N \<union> ?O) = name ` set ?cs \<longleftrightarrow> ?N \<union> ?O = set ?cs"
    using inj sub(4) subset_refl by (rule inj_on_image_eq_iff)
  also have "\<dots> \<longleftrightarrow> list_all (\<lambda>c. np_number (dtype c) \<or> object (dtype c)) ?cs"
    unfolding list_all_iff by blast
  finally have 3: "name ` ?N \<union> name ` ?O = set (column_names (heap w ! d))
                 \<longleftrightarrow> list_all (\<lambda>c. np_number (dtype c) \<or> object (dtype c)) ?cs"
    by (simp only: image_Un names)
  from 1 2 3 show ?thesis
    unfolding n c by (intro conjI refl)
qed

theorem column_classification_witness:
  "set (numerical_cols (fst (analyzer_of viewing_table))) = {''day'', ''minutes''}
   \<and> set (categorical_cols (fst (analyzer_of viewing_table))) = {''genre''}
   \<and> set (numerical_cols (fst (analyzer_of viewing_table)))
     \<inter> set (categorical_cols (fst (analyzer_of viewing_table))) = {}
   \<and> set (numerical_cols (fst (analyzer_of viewing_table)))
     \<union> set (categorical_cols (fst (analyzer_of viewing_table)))
     \<noteq> set (column_names viewing_table)"
proof -
  have l: "0 < length (heap \<lparr>heap = [viewing_table], out = []\<rparr>)"
    by simp
  have d: "distinct (column_names (heap \<lparr>heap = [viewing_table], out = []\<rparr> ! 0))"
    by (simp add: viewing_table_cols)
  have a: "NetflixExploratoryAnalysis 0 \<lparr>heap = [viewing_table], out = []\<rparr>
             = (fst (analyzer_of viewing_table), snd (analyzer_of viewing_table))"
    by (simp add: analyzer_of_def)
  have t: "list_all (\<lambda>c. np_number (dtype c) \<or> object (dtype c)) (columns viewing_table)
             = False"
    by (simp add: viewing_table_def object_def)
  have n: "set (numerical_cols (fst (analyzer_of viewing_table))) = {''day'', ''minutes''}"
    and c: "set (categorical_cols (fst (analyzer_of viewing_table))) = {''genre''}"
    by (simp_all add: viewing_table_cols)
  note th = column_classification [OF l d a]
  have i: "set (numerical_cols (fst (analyzer_of viewing_table)))
             \<inter> set (categorical_cols (fst (analyzer_of viewing_table))) = {}"
    by (rule th [THEN conjunct2, THEN conjunct2, THEN conjunct1])
  have u: "set (numerical_cols (fst (analyzer_of viewing_table)))
             \<union> set (categorical_cols (fst (analyzer_of viewing_table)))
           \<noteq> set (column_names viewing_table)"
    using th [THEN conjunct2, THEN conjunct2, THEN conjunct2, THEN conjunct2] t by simp
  from n c i u show ?thesis
    by (intro conjI)
qed

text \<open>
  Claim C6 as it is stated fails: the Boolean column \<open>watched\<close> of the example table is
  a column of the table and is in neither list, and with two columns named \<open>id\<close>, one
  of integers and one of strings, the name is in both lists.
\<close>

theorem column_classification_no_partition:
  "''watched'' \<in> set (column_names viewing_table)
   \<and> ''watched'' \<notin> set (numerical_cols (fst (analyzer_of viewing_table)))
   \<and> ''watched'' \<notin> set (categorical_cols (fst (analyzer_of viewing_table)))
   \<and> ''id'' \<in> set (numerical_cols (fst (analyzer_of duplicate_table)))
   \<and> ''id'' \<in> set (categorical_cols (fst (analyzer_of duplicate_table)))"
  by (simp add: viewing_table_cols duplicate_table_cols)

section \<open>Categorical analysis\<close>

lemma value_counts_nonempty: "x \<in> set xs \<Longrightarrow> x \<noteq> NaN \<Longrightarrow> value_counts xs \<noteq> []"
proof -
  assume "x \<in> set xs" "x \<noteq> NaN"
  then have "filter (\<lambda>x. x \<noteq> NaN) xs \<noteq> []"
    by (auto simp: filter_empty_conv)
  then have "length (value_counts xs) \<noteq> 0"
    by (simp add: value_counts_def Let_def)
  then show ?thesis by auto
qed

lemma categorical_profile_ok:
  "has_values t col \<Longrightarrow> \<exists>r. categorical_profile t col = Inr r"
  by (auto simp: has_values_def categorical_profile_def and_then_def list_ex_iff
      split: sum.splits list.splits dest: value_counts_nonempty)

lemma categorical_loop_ok:
  assumes "list_all (has_values t) cols"
  shows "\<exists>results w'. categorical_loop t cols acc w = (Inr results, w')
           \<and> (\<forall>k. results k = (if k \<in> set cols
                                 then (case categorical_profile t k of Inl e \<Rightarrow> None | Inr r \<Rightarrow> Some r)
                                 else acc k))"
  using assms
proof (induction cols arbitrary: acc w)
  case Nil
  then show ?case by simp
next
  case (Cons col cols)
  then obtain r where r: "categorical_profile t col = Inr r"
    using categorical_profile_ok by force
  let ?w = "say (CategoricalMostCommon (most_common r) (most_common_count r))
              (say (CategoricalUnique (unique_values r)) (say (CategoricalColumn col) w))"
  from Cons.prems have "list_all (has_values t) cols" by simp
  from Cons.IH [OF this, of "acc(col \<mapsto> r)" ?w]
  obtain results w' where
    "categorical_loop t cols (acc(col \<mapsto> r)) ?w = (Inr results, w')"
    "\<forall>k. results k = (if k \<in> set cols
                        then (case categorical_profile t k of Inl e \<Rightarrow> None | Inr r \<Rightarrow> Some r)
                        else (acc(col \<mapsto> r)) k)"
    by blast
  with r show ?case by auto
qed

lemma value_counts_AAB:
  "a \<noteq> b \<Longrightarrow> value_counts [Str a, Str a, Str b] = [(Str a, 2), (Str b, 1)]"
  by (simp add: value_counts_def)

lemma nunique_AAB: "a \<noteq> b \<Longrightarrow> nunique [Str a, Str a, Str b] = 2"
  by (simp add: nunique_def)

lemma viewing_table_genre:
  "getitem viewing_table ''genre''
     = Inr \<lparr>name = ''genre'', dtype = Object, vals = [Str ''A'', Str ''A'', Str ''B'']\<rparr>"
  by (simp add: getitem_def viewing_table_def)

lemma notes_table_genre:
  "categorical_cols (fst (analyzer_of notes_table)) = [''note'', ''genre'']
   \<and> getitem notes_table ''note''
       = Inr \<lparr>name = ''note'', dtype = Object, vals = [NaN, NaN, NaN]\<rparr>
   \<and> getitem notes_table ''genre''
       = Inr \<lparr>name = ''genre'', dtype = Object, vals = [Str ''A'', Str ''A'', Str ''B'']\<rparr>"
  by (simp add: analyzer_of_cols column_names_def select_dtypes_def object_def getitem_def
      notes_table_def)

text \<open>
  When every categorical column of the stored table has a value that is not missing,
  \<open>categorical_analysis\<close> returns a result, in which a column with the values A, A, B,
  A and B different, has \<open>unique_values\<close> 2, \<open>most_common\<close> A and \<open>most_common_count\<close> 2.
\<close>

lemma categorical_analysis_with_values:
  assumes "col \<in> set (categorical_cols self)"
    and "getitem (heap w ! eda_data self) col = Inr c"
    and "vals c = [Str a, Str a, Str b]" and "a \<noteq> b"
    and "list_all (has_values (heap w ! eda_data self)) (categorical_cols self)"
  shows "\<exists>results w' r. categorical_analysis self w = (Inr results, w')
           \<and> results col = Some r
           \<and> unique_values r = 2 \<and> most_common r = Str a \<and> most_common_count r = 2
           \<and> distribution r = [(Str a, 2), (Str b, 1)]"
proof -
  let ?t = "heap w ! eda_data self"
  have p: "categorical_profile ?t col
         = Inr \<lparr>unique_values = 2, most_common = Str a, most_common_count = 2,
                distribution = [(Str a, 2), (Str b, 1)]\<rparr>"
    using assms(2,3,4) by (simp add: categorical_profile_def and_then_def value_counts_AAB nunique_AAB)
  from categorical_loop_ok [OF assms(5), of Map.empty "say AnalyzingCategorical w"]
  obtain results w' where
    "categorical_loop ?t (categorical_cols self) Map.empty (say AnalyzingCategorical w) = (Inr results, w')"
    "\<forall>k. results k = (if k \<in> set (categorical_cols self)
                        then (case categorical_profile ?t k of Inl e \<Rightarrow> None | Inr r \<Rightarrow> Some r)
                        else None)"
    by blast
  with assms(1) p show ?thesis
    by (simp add: categorical_analysis_def)
qed

lemma categorical_analysis_viewing_table:
  "\<exists>results w' r.
      categorical_analysis (fst (analyzer_of viewing_table)) (snd (analyzer_of viewing_table))
        = (Inr results, w')
    \<and> results ''genre'' = Some r
    \<and> unique_values r = 2 \<and> most_common r = Str ''A'' \<and> most_common_count r = 2
    \<and> distribution r = [(Str ''A'', 2), (Str ''B'', 1)]"
proof -
  let ?A = "fst (analyzer_of viewing_table)"
  let ?W = "snd (analyzer_of viewing_table)"
  let ?c = "\<lparr>name = ''genre'', dtype = Object, vals = [Str ''A'', Str ''A'', Str ''B'']\<rparr>"
  have h1: "''genre'' \<in> set (categorical_cols ?A)"
    by (simp add: viewing_table_cols)
  have h2: "getitem (heap ?W ! eda_data ?A) ''genre'' = Inr ?c"
    by (simp add: analyzer_of_store viewing_table_genre)
  have h3: "vals ?c = [Str ''A'', Str ''A'', Str ''B'']"
    by simp
  have h4: "''A'' \<noteq> ''B''"
    by simp
  have h5: "list_all (has_values (heap ?W ! eda_data ?A)) (categorical_cols ?A)"
    by (simp add: analyzer_of_store viewing_table_cols has_values_def viewing_table_genre)
  show ?thesis
    using categorical_analysis_with_values [OF h1 h2 h3 h4 h5] by simp
qed

text \<open>
  Claim C8 fails on the code.  Over a table with a categorical column \<open>genre\<close> whose
  values are A, A, B and, before it, a categorical column \<open>note\<close> whose values are all
  missing, \<open>categorical_analysis\<close> prints its heading and raises IndexError at the first
  entry of the empty counts of \<open>note\<close>: it returns no result and reports nothing for
  \<open>genre\<close>.
\<close>

theorem categorical_analysis_AAB_raises:
  "categorical_cols (fst (analyzer_of notes_table)) = [''note'', ''genre'']
   \<and> getitem (heap (snd (analyzer_of notes_table)) ! eda_data (fst (analyzer_of notes_table)))
         ''genre''
       = Inr \<lparr>name = ''genre'', dtype = Object, vals = [Str ''A'', Str ''A'', Str ''B'']\<rparr>
   \<and> categorical_analysis (fst (analyzer_of notes_table)) (snd (analyzer_of notes_table))
       = (Inl IndexError, say AnalyzingCategorical (snd (analyzer_of notes_table)))"
proof -
  have 1: "categorical_cols (fst (analyzer_of notes_table)) = [''note'', ''genre'']"
    by (simp add: notes_table_genre)
  have 2: "getitem (heap (snd (analyzer_of notes_table)) ! eda_data (fst (analyzer_of notes_table)))
             ''genre''
           = Inr \<lparr>name = ''genre'', dtype = Object, vals = [Str ''A'', Str ''A'', Str ''B'']\<rparr>"
    by (simp add: analyzer_of_store notes_table_genre)
  have 3: "categorical_analysis (fst (analyzer_of notes_table)) (snd (analyzer_of notes_table))
             = (Inl IndexError, say AnalyzingCategorical (snd (analyzer_of notes_table)))"
    by (simp add: categorical_analysis_def analyzer_of_store notes_table_genre
        categorical_profile_def and_then_def value_counts_def)
  from 1 2 3 show ?thesis
    by (intro conjI)
qed

section \<open>Outliers by the interquartile range\<close>

lemma values_of_Num: "values_of quantile_value (map Num rs) = Inr rs"
  by (induction rs) simp_all

lemma map_snd_filter: "map snd (filter (\<lambda>lv. P (snd lv)) zs) = filter P (map snd zs)"
  by (induction zs) auto

lemma length_filter_count: "length (filter (\<lambda>x. f x = v) xs) = count (mset (map f xs)) v"
  by (induction xs) auto

lemma quantiles_example:
  assumes "sort rs = [1, 2, 3, 4, 5, 1000]"
  shows "quantile rs (1 / 4) = Some (9 / 4)" and "quantile rs (3 / 4) = Some (19 / 4)"
proof -
  have "length (sort rs) = 6" using assms by simp
  then have n: "length rs = 6" by simp
  then have ne: "rs \<noteq> []" by auto
  have f1: "\<lfloor>5 / 4 :: rat\<rfloor> = 1" by (simp add: floor_eq_iff)
  have f3: "\<lfloor>15 / 4 :: rat\<rfloor> = 3" by (simp add: floor_eq_iff)
  show "quantile rs (1 / 4) = Some (9 / 4)"
    using ne by (simp add: quantile_def Let_def n assms f1)
  show "quantile rs (3 / 4) = Some (19 / 4)"
    using ne by (simp add: quantile_def Let_def n assms f3)
qed

lemma iqr_outliers_eval:
  assumes "values_of quantile_value (map snd data) = Inr xs"
    and "quantile xs (1 / 4) = Some q1" and "quantile xs (3 / 4) = Some q3"
    and "data \<noteq> []"
    and "lb = q1 - 3 / 2 * (q3 - q1)" and "ub = q3 + 3 / 2 * (q3 - q1)"
    and "outliers = take_pos (nonzero (map (\<lambda>x. x < lb \<or> ub < x) xs)) data"
  shows "iqr_outliers data
           = Inr (outliers, Stats_IQR (Some lb) (Some ub) (length outliers)
                    (of_nat (length outliers) / of_nat (length data) * 100))"
  using assms(4)
  by (simp add: iqr_outliers_def assms(1,2,3,5,6,7) and_then_def nan_op_def nan_less_def
      percentage_def Let_def)

lemma iqr_outliers_example:
  assumes "mset (map snd data) = mset (map Num [1, 2, 3, 4, 5, 1000])"
  shows "iqr_outliers data
           = Inr (filter (\<lambda>lv. snd lv = Num 1000) data,
                  Stats_IQR (Some (- 3 / 2)) (Some (17 / 2)) 1 (50 / 3))"
proof -
  let ?L = "[1, 2, 3, 4, 5, 1000] :: rat list"
  let ?rs = "map (\<lambda>lv. the_num (snd lv)) data"
  have set_eq: "set (map snd data) = set (map Num ?L)"
    using assms by (rule mset_eq_setD)
  have num: "Num (the_num (snd lv)) = snd lv" if "lv \<in> set data" for lv
  proof -
    from that have "snd lv \<in> set (map Num ?L)" using set_eq by auto
    then show ?thesis by (auto simp: the_num_def)
  qed
  have ys: "map snd data = map Num ?rs"
    using num by (simp add: comp_def)
  have vs: "values_of quantile_value (map snd data) = Inr ?rs"
    unfolding ys by (rule values_of_Num)
  have "mset ?rs = image_mset the_num (mset (map snd data))"
    by (simp add: multiset.map_comp comp_def)
  also have "\<dots> = mset ?L"
    unfolding assms by (simp add: the_num_def)
  finally have ms: "mset ?rs = mset ?L" .
  have sorted: "sort ?rs = ?L"
  proof (rule properties_for_sort)
    show "mset ?L = mset ?rs" using ms by simp
    show "sorted ?L" by simp
  qed
  have "size (mset data) = size (mset (map snd data))" by simp
  then have len: "length data = 6" unfolding assms by simp
  then have ne: "data \<noteq> []" by auto
  have P: "(the_num (snd lv) < - 3 / 2 \<or> 17 / 2 < the_num (snd lv)) \<longleftrightarrow> snd lv = Num 1000"
    if "lv \<in> set data" for lv
  proof -
    from that have "snd lv \<in> set (map Num ?L)" using set_eq by auto
    then show ?thesis by (auto simp: the_num_def)
  qed
  have "take_pos (nonzero (map (\<lambda>x. x < - 3 / 2 \<or> 17 / 2 < x) ?rs)) data
          = take_pos (nonzero (map (\<lambda>lv. the_num (snd lv) < - 3 / 2 \<or> 17 / 2 < the_num (snd lv)) data)) data"
    by (simp only: map_map comp_def)
  also have "\<dots> = filter (\<lambda>lv. the_num (snd lv) < - 3 / 2 \<or> 17 / 2 < the_num (snd lv)) data"
    by (rule take_pos_nonzero_map [of "\<lambda>r. r < - 3 / 2 \<or> 17 / 2 < r" "\<lambda>lv. the_num (snd lv)" data])
  also have "\<dots> = filter (\<lambda>lv. snd lv = Num 1000) data"
    by (rule filter_cong) (simp_all only: P)
  finally have out: "filter (\<lambda>lv. snd lv = Num 1000) data
                   = take_pos (nonzero (map (\<lambda>x. x < - 3 / 2 \<or> 17 / 2 < x) ?rs)) data"
    by (rule sym)
  have "length (filter (\<lambda>lv. snd lv = Num 1000) data)
          = count (mset (map snd data)) (Num 1000)"
    by (rule length_filter_count)
  also have "\<dots> = 1"
    unfolding assms by simp
  finally have cnt: "length (filter (\<lambda>lv. snd lv = Num 1000) data) = 1" .
  have lb: "(- 3 / 2 :: rat) = 9 / 4 - 3 / 2 * (19 / 4 - 9 / 4)" by simp
  have ub: "(17 / 2 :: rat) = 19 / 4 + 3 / 2 * (19 / 4 - 9 / 4)" by simp
  have "iqr_outliers data
          = Inr (filter (\<lambda>lv. snd lv = Num 1000) data,
                 Stats_IQR (Some (- 3 / 2)) (Some (17 / 2))
                   (length (filter (\<lambda>lv. snd lv = Num 1000) data))
                   (of_nat (length (filter (\<lambda>lv. snd lv = Num 1000) data)) / of_nat (length data) * 100))"
    using vs quantiles_example [OF sorted] ne lb ub out by (rule iqr_outliers_eval)
  then show ?thesis
    by (simp add: cnt len)
qed

lemma series_dropna_values:
  "length (index t) = length (vals c) \<Longrightarrow>
   map snd (series_dropna (series_of t c)) = filter (\<lambda>x. x \<noteq> NaN) (vals c)"
  using map_snd_filter [of "\<lambda>x. x \<noteq> NaN" "zip (index t) (vals c)"]
  by (simp add: series_dropna_def series_of_def)

lemma detect_outliers_iqr_result:
  assumes "column \<in> set (numerical_cols self)"
    and "getitem (heap w ! eda_data self) column = Inr c"
    and "length (vals c) = len (heap w ! eda_data self)"
    and "mset (filter (\<lambda>x. x \<noteq> NaN) (vals c)) = mset (map Num [1, 2, 3, 4, 5, 1000])"
  shows "fst (detect_outliers L self column ''iqr'' w)
           = Inr (map fst (filter (\<lambda>lv. snd lv = Num 1000) (series_of (heap w ! eda_data self) c)),
                  Stats_IQR (Some (- 3 / 2)) (Some (17 / 2)) 1 (50 / 3))"
    and "length (filter (\<lambda>lv. snd lv = Num 1000) (series_of (heap w ! eda_data self) c)) = 1"
proof -
  let ?data = "series_dropna (series_of (heap w ! eda_data self) c)"
  have "map snd ?data = filter (\<lambda>x. x \<noteq> NaN) (vals c)"
    using assms(3) by (simp add: series_dropna_values len_def)
  with assms(4) have ms: "mset (map snd ?data) = mset (map Num [1, 2, 3, 4, 5, 1000])"
    by simp
  have iqr: "iqr_outliers ?data
           = Inr (filter (\<lambda>lv. snd lv = Num 1000) ?data,
                  Stats_IQR (Some (- 3 / 2)) (Some (17 / 2)) 1 (50 / 3))"
    using ms by (rule iqr_outliers_example)
  have same: "filter (\<lambda>lv. snd lv = Num 1000) ?data
            = filter (\<lambda>lv. snd lv = Num 1000) (series_of (heap w ! eda_data self) c)"
    unfolding series_dropna_def filter_filter by (rule filter_cong) auto
  have "length (filter (\<lambda>lv. snd lv = Num 1000) ?data)
          = count (mset (map snd ?data)) (Num 1000)"
    by (rule length_filter_count)
  also have "\<dots> = 1" unfolding ms by simp
  finally show "length (filter (\<lambda>lv. snd lv = Num 1000) (series_of (heap w ! eda_data self) c)) = 1"
    unfolding same .
  show "fst (detect_outliers L self column ''iqr'' w)
           = Inr (map fst (filter (\<lambda>lv. snd lv = Num 1000) (series_of (heap w ! eda_data self) c)),
                  Stats_IQR (Some (- 3 / 2)) (Some (17 / 2)) 1 (50 / 3))"
    using assms(1,2)
    by (simp add: detect_outliers_def Let_def iqr same [symmetric])
qed

lemma outlier_table_x:
  "numerical_cols (fst (analyzer_of outlier_table)) = [''x'']
   \<and> getitem outlier_table ''x''
       = Inr \<lparr>name = ''x'', dtype = Int64,
              vals = [Num 1, Num 2, Num 3, Num 4, Num 5, Num 1000]\<rparr>
   \<and> index outlier_table = [Num 0, Num 1, Num 2, Num 3, Num 4, Num 5]"
  by (simp add: analyzer_of_cols column_names_def select_dtypes_def
      getitem_def outlier_table_def)

lemma shuffled_table_x:
  "numerical_cols (fst (analyzer_of shuffled_table)) = [''x'']
   \<and> getitem shuffled_table ''x''
       = Inr \<lparr>name = ''x'', dtype = Float64,
              vals = [Num 3, Num 1000, NaN, Num 1, Num 5, Num 2, Num 4]\<rparr>
   \<and> index shuffled_table = [Num 0, Num 1, Num 2, Num 3, Num 4, Num 5, Num 6]"
  by (simp add: analyzer_of_cols column_names_def select_dtypes_def
      getitem_def shuffled_table_def)

lemma missing_table_x:
  "numerical_cols (fst (analyzer_of missing_table)) = [''x'']
   \<and> categorical_cols (fst (analyzer_of missing_table)) = [''label'']
   \<and> getitem missing_table ''x'' = Inr \<lparr>name = ''x'', dtype = Float64, vals = [NaN, NaN]\<rparr>
   \<and> getitem missing_table ''label''
       = Inr \<lparr>name = ''label'', dtype = Object, vals = [NaN, NaN]\<rparr>
   \<and> index missing_table = [Num 0, Num 1]"
  by (simp add: analyzer_of_cols column_names_def select_dtypes_def object_def
      getitem_def missing_table_def)

text \<open>
  Claim C1, as amended.  For a numerical column of the stored table whose values that
  are not missing are 1, 2, 3, 4, 5 and 1000 in any order, \<open>detect_outliers\<close> with the
  method \<open>iqr\<close> returns the labels of the rows holding 1000, of which there is one,
  with \<open>n_outliers\<close> 1, the lower bound \<open>-1.5\<close> and the upper bound \<open>8.5\<close>.
\<close>

theorem detect_outliers_iqr_example:
  assumes "column \<in> set (numerical_cols self)"
    and "getitem (heap w ! eda_data self) column = Inr c"
    and "length (vals c) = len (heap w ! eda_data self)"
    and "mset (filter (\<lambda>x. x \<noteq> NaN) (vals c)) = mset (map Num [1, 2, 3, 4, 5, 1000])"
  shows "\<exists>flagged stats.
           fst (detect_outliers L self column ''iqr'' w) = Inr (flagged, stats)
         \<and> flagged = map fst (filter (\<lambda>lv. snd lv = Num 1000) (series_of (heap w ! eda_data self) c))
         \<and> length flagged = 1
         \<and> n_outliers stats = 1
         \<and> lower_bound stats = Some (- 3 / 2)
         \<and> upper_bound stats = Some (17 / 2)"
  using detect_outliers_iqr_result(1) [OF assms, of L] detect_outliers_iqr_result(2) [OF assms]
  by simp

theorem detect_outliers_iqr_example_witness:
  "\<exists>flagged stats.
      fst (detect_outliers example_lib (fst (analyzer_of shuffled_table)) ''x'' ''iqr''
             (snd (analyzer_of shuffled_table))) = Inr (flagged, stats)
    \<and> flagged = [Num 1]
    \<and> length flagged = 1
    \<and> n_outliers stats = 1
    \<and> lower_bound stats = Some (- 3 / 2)
    \<and> upper_bound stats = Some (17 / 2)"
proof -
  let ?A = "fst (analyzer_of shuffled_table)"
  let ?W = "snd (analyzer_of shuffled_table)"
  let ?c = "\<lparr>name = ''x'', dtype = Float64,
             vals = [Num 3, Num 1000, NaN, Num 1, Num 5, Num 2, Num 4]\<rparr>"
  have h1: "''x'' \<in> set (numerical_cols ?A)"
    by (simp add: shuffled_table_x)
  have h2: "getitem (heap ?W ! eda_data ?A) ''x'' = Inr ?c"
    by (simp add: analyzer_of_store shuffled_table_x)
  have h3: "length (vals ?c) = len (heap ?W ! eda_data ?A)"
    by (simp add: analyzer_of_store len_def shuffled_table_x)
  have h4: "mset (filter (\<lambda>x. x \<noteq> NaN) (vals ?c)) = mset (map Num [1, 2, 3, 4, 5, 1000])"
    by simp
  have e: "map fst (filter (\<lambda>lv. snd lv = Num 1000) (series_of (heap ?W ! eda_data ?A) ?c))
             = [Num 1]"
    by (simp add: analyzer_of_store series_of_def shuffled_table_x)
  show ?thesis
    using detect_outliers_iqr_example [OF h1 h2 h3 h4, of example_lib]
    unfolding e .
qed

text \<open>
  Claim C1 as it is stated fails: on the column with the values 1, 2, 3, 4, 5, 1000
  the row of 1000 is flagged and the count is 1, but the lower bound is \<open>-1.5\<close>, so
  the pair of bounds is not positive.
\<close>

theorem detect_outliers_iqr_lower_bound_negative:
  "fst (detect_outliers example_lib (fst (analyzer_of outlier_table)) ''x'' ''iqr''
          (snd (analyzer_of outlier_table)))
     = Inr ([Num 5], Stats_IQR (Some (- 3 / 2)) (Some (17 / 2)) 1 (50 / 3))
   \<and> \<not> bounds_positive (Stats_IQR (Some (- 3 / 2)) (Some (17 / 2)) 1 (50 / 3))"
proof -
  let ?A = "fst (analyzer_of outlier_table)"
  let ?W = "snd (analyzer_of outlier_table)"
  let ?c = "\<lparr>name = ''x'', dtype = Int64,
             vals = [Num 1, Num 2, Num 3, Num 4, Num 5, Num 1000]\<rparr>"
  have h1: "''x'' \<in> set (numerical_cols ?A)"
    by (simp add: outlier_table_x)
  have h2: "getitem (heap ?W ! eda_data ?A) ''x'' = Inr ?c"
    by (simp add: analyzer_of_store outlier_table_x)
  have h3: "length (vals ?c) = len (heap ?W ! eda_data ?A)"
    by (simp add: analyzer_of_store len_def outlier_table_x)
  have h4: "mset (filter (\<lambda>x. x \<noteq> NaN) (vals ?c)) = mset (map Num [1, 2, 3, 4, 5, 1000])"
    by simp
  have e: "map fst (filter (\<lambda>lv. snd lv = Num 1000) (series_of (heap ?W ! eda_data ?A) ?c))
             = [Num 5]"
    by (simp add: analyzer_of_store series_of_def outlier_table_x)
  have "fst (detect_outliers example_lib ?A ''x'' ''iqr'' ?W)
          = Inr ([Num 5], Stats_IQR (Some (- 3 / 2)) (Some (17 / 2)) 1 (50 / 3))"
    using detect_outliers_iqr_result(1) [OF h1 h2 h3 h4, of example_lib]
    unfolding e .
  then show ?thesis
    by (simp add: bounds_positive_def nan_less_def)
qed

section \<open>Operations that raise\<close>

text \<open>
  Claim C2 fails on the code.  On a numerical column, \<open>detect_outliers\<close> with a method
  that is neither \<open>iqr\<close> nor \<open>zscore\<close> prints its first line and then raises
  UnboundLocalError, since neither branch has assigned \<open>stats_dict\<close>; on a numerical
  column whose values are all missing, the method \<open>iqr\<close> raises ZeroDivisionError in the
  percentage; on a categorical column whose values are all missing,
  \<open>categorical_analysis\<close> raises IndexError at the first entry of the empty counts.
\<close>

theorem analyzer_operations_raise:
  "detect_outliers example_lib (fst (analyzer_of outlier_table)) ''x'' ''median''
       (snd (analyzer_of outlier_table))
     = (Inl (UnboundLocalError ''stats_dict''),
        say (OutliersDetected ''x'') (snd (analyzer_of outlier_table)))
   \<and> fst (detect_outliers example_lib (fst (analyzer_of missing_table)) ''x'' ''iqr''
            (snd (analyzer_of missing_table))) = Inl ZeroDivisionError
   \<and> fst (categorical_analysis (fst (analyzer_of missing_table))
            (snd (analyzer_of missing_table))) = Inl IndexError"
proof -
  have 1: "detect_outliers example_lib (fst (analyzer_of outlier_table)) ''x'' ''median''
             (snd (analyzer_of outlier_table))
           = (Inl (UnboundLocalError ''stats_dict''),
              say (OutliersDetected ''x'') (snd (analyzer_of outlier_table)))"
    by (simp add: detect_outliers_def Let_def analyzer_of_store outlier_table_x)
  have 2: "fst (detect_outliers example_lib (fst (analyzer_of missing_table)) ''x'' ''iqr''
                  (snd (analyzer_of missing_table))) = Inl ZeroDivisionError"
    by (simp add: detect_outliers_def Let_def analyzer_of_store missing_table_x
        series_dropna_def series_of_def iqr_outliers_def and_then_def quantile_def
        nan_op_def nan_less_def nonzero_def take_pos_def percentage_def)
  have 3: "fst (categorical_analysis (fst (analyzer_of missing_table))
                  (snd (analyzer_of missing_table))) = Inl IndexError"
    by (simp add: categorical_analysis_def analyzer_of_store missing_table_x
        categorical_profile_def and_then_def value_counts_def)
  from 1 2 3 show ?thesis
    by (intro conjI)
qed

end
